theory Spec2Isabelle
  imports Complex_Main
begin

section \<open>Strings\<close>

text \<open>
  Python \<open>str\<close> values are modelled as \<^typ>\<open>string\<close>. The character classes below are
  the ASCII part of Python's: \<open>str.lower\<close>, \<open>str.title\<close>, \<open>str.strip\<close> and the
  regular-expression class \<open>\s\<close> are Unicode-aware in Python, and the model follows them on
  code points below 128.
\<close>

definition lower_char :: "char \<Rightarrow> char" where
  "lower_char c =
     (case map_of (zip ''ABCDEFGHIJKLMNOPQRSTUVWXYZ'' ''abcdefghijklmnopqrstuvwxyz'') c of
        None \<Rightarrow> c | Some d \<Rightarrow> d)"

definition upper_char :: "char \<Rightarrow> char" where
  "upper_char c =
     (case map_of (zip ''abcdefghijklmnopqrstuvwxyz'' ''ABCDEFGHIJKLMNOPQRSTUVWXYZ'') c of
        None \<Rightarrow> c | Some d \<Rightarrow> d)"

definition is_alpha :: "char \<Rightarrow> bool" where
  "is_alpha c \<longleftrightarrow> c \<in> set ''abcdefghijklmnopqrstuvwxyzABCDEFGHIJKLMNOPQRSTUVWXYZ''"

text \<open>\<open>str.lower()\<close>\<close>

definition lower :: "string \<Rightarrow> string" where
  "lower s = map lower_char s"

text \<open>
  The class \<open>\s\<close> of a \<open>str\<close> pattern, and the characters \<open>str.strip()\<close> removes:
  space, \<open>\t \n \v \f \r\<close> and the separators \<open>0x1c\<close> to \<open>0x1f\<close>.
\<close>

definition is_space :: "char \<Rightarrow> bool" where
  "is_space c \<longleftrightarrow>
     c \<in> set [CHR '' '', CHR 0x09, CHR 0x0A, CHR 0x0B, CHR 0x0C, CHR 0x0D,
              CHR 0x1C, CHR 0x1D, CHR 0x1E, CHR 0x1F]"

text \<open>\<open>str.strip()\<close>\<close>

definition strip :: "string \<Rightarrow> string" where
  "strip s = rev (dropWhile is_space (rev (dropWhile is_space s)))"

text \<open>\<open>sep.join(xs)\<close>\<close>

fun join :: "string \<Rightarrow> string list \<Rightarrow> string" where
  "join sep [] = []"
| "join sep [x] = x"
| "join sep (x # y # ys) = x @ sep @ join sep (y # ys)"

text \<open>\<open>s.split(',')\<close>: one more piece than there are commas.\<close>

fun split_comma :: "string \<Rightarrow> string list" where
  "split_comma [] = [[]]"
| "split_comma (c # cs) =
     (if c = CHR '','' then [] # split_comma cs
      else (case split_comma cs of [] \<Rightarrow> [[c]] | w # ws \<Rightarrow> (c # w) # ws))"

text \<open>
  \<open>str.title()\<close>: a letter after a letter is lowered, any other letter is raised.
\<close>

fun title_from :: "bool \<Rightarrow> string \<Rightarrow> string" where
  "title_from prev [] = []"
| "title_from prev (c # cs) =
     (if is_alpha c then (if prev then lower_char c else upper_char c) # title_from True cs
      else c # title_from False cs)"

definition title_case :: "string \<Rightarrow> string" where
  "title_case s = title_from False s"

text \<open>\<open>str(n)\<close> for an integer.\<close>

fun str_nat :: "nat \<Rightarrow> string" where
  "str_nat n =
     (if n < 10 then [''0123456789'' ! n]
      else str_nat (n div 10) @ [''0123456789'' ! (n mod 10)])"

definition str_int :: "int \<Rightarrow> string" where
  "str_int i = (if i < 0 then ''-'' @ str_nat (nat (- i)) else str_nat (nat i))"

definition newline :: string where
  "newline = [CHR 0x0A]"

section \<open>Data model (types.py)\<close>

record JiraStatus =
  status_name :: string
  category_key :: string

record JiraProject =
  project_key_of :: string
  project_name :: string

record JiraUser =
  display_name :: string
  email_address :: string

text \<open>\<open>JiraIssueType\<close> has the single field \<open>name\<close>; dates are instants on an integer clock.\<close>

record JiraIssue =
  issue_id :: string
  key :: string
  summary :: string
  description :: "string option"
  status :: "JiraStatus option"
  issue_type :: "string option"
  project :: "JiraProject option"
  assignee :: "JiraUser option"
  reporter :: "JiraUser option"
  created :: "int option"
  updated :: "int option"
  labels :: "string list"

record IssueMatchResult =
  score :: real
  issue :: JiraIssue
  matched_fields :: "string list"

section \<open>Similarity scoring (JiraClient.find\_similar\_issues)\<close>

text \<open>
  \<open>fuzz.token_sort_ratio\<close> belongs to the fuzzywuzzy library: it is the parameter
  \<open>ratio\<close>, an integer percentage. The scores are Python floats; the model computes them
  in \<^typ>\<open>real\<close>.
\<close>

type_synonym ratio_fn = "string \<Rightarrow> string \<Rightarrow> nat"

definition summary_score :: "ratio_fn \<Rightarrow> string \<Rightarrow> JiraIssue \<Rightarrow> real" where
  "summary_score ratio search_text i =
     real (ratio (lower search_text) (lower (summary i))) / 100"

text \<open>\<open>if issue.description:\<close> is false for \<open>None\<close> and for the empty string.\<close>

definition description_score :: "ratio_fn \<Rightarrow> string \<Rightarrow> JiraIssue \<Rightarrow> real" where
  "description_score ratio search_text i =
     (case description i of
        None \<Rightarrow> 0
      | Some d \<Rightarrow> if d = [] then 0 else real (ratio (lower search_text) (lower d)) / 100)"

definition labels_score :: "ratio_fn \<Rightarrow> string \<Rightarrow> JiraIssue \<Rightarrow> real" where
  "labels_score ratio search_text i =
     (if labels i = [] then 0
      else real (ratio (lower search_text) (lower (join '' '' (labels i)))) / 100)"

definition combined_score :: "ratio_fn \<Rightarrow> string \<Rightarrow> JiraIssue \<Rightarrow> real" where
  "combined_score ratio search_text i =
     min (summary_score ratio search_text i * 0.7
          + description_score ratio search_text i * 0.3
          + labels_score ratio search_text i * 0.2) 1.0"

definition matched_fields_of :: "ratio_fn \<Rightarrow> string \<Rightarrow> real \<Rightarrow> JiraIssue \<Rightarrow> string list" where
  "matched_fields_of ratio search_text threshold i =
     (if summary_score ratio search_text i \<ge> threshold then [''summary''] else [])
     @ (if description_score ratio search_text i \<ge> threshold then [''description''] else [])
     @ (if labels_score ratio search_text i \<ge> threshold then [''labels''] else [])"

text \<open>One pass of the loop body: the result appended for an issue, if any.\<close>

definition score_issue :: "ratio_fn \<Rightarrow> string \<Rightarrow> real \<Rightarrow> JiraIssue \<Rightarrow> IssueMatchResult option" where
  "score_issue ratio search_text threshold i =
     (if combined_score ratio search_text i \<ge> threshold
      then Some \<lparr>score = combined_score ratio search_text i, issue = i,
                 matched_fields = matched_fields_of ratio search_text threshold i\<rparr>
      else None)"

text \<open>
  \<open>results.sort(key=lambda x: x.score, reverse=True)\<close>: Python's sort is stable, also with
  \<open>reverse=True\<close> (equal scores keep the order in which they were appended). It is the
  stable sort of the library on the negated score.
\<close>

definition sort_desc :: "IssueMatchResult list \<Rightarrow> IssueMatchResult list" where
  "sort_desc rs = sort_key (\<lambda>r. - score r) rs"

section \<open>Exceptions, external calls and the client state\<close>

text \<open>
  A raised exception is a value. \<open>Exception\<close> stands for any exception of the Jira and
  GitHub libraries and for the plain \<open>Exception\<close> the handlers raise, with its message.
\<close>

datatype exn =
  Exception string
  | TypeError string
  | JSONDecodeError string
  | HTTPException nat string

record CreateJiraIssueRequest =
  req_summary :: string
  req_issue_type :: string
  req_project_key :: string
  req_description :: "string option"
  req_labels :: "string list"
  req_assignee :: "string option"
  req_priority :: "string option"

text \<open>The dictionary \<open>issue_data\<close> sent to Jira; the two optional keys are present or not.\<close>

record issue_data =
  data_project :: string
  data_summary :: string
  data_description :: string
  data_issuetype :: string
  data_labels :: "string list"
  data_assignee :: "string option"
  data_priority :: "string option"

record GitHubBranch =
  ref :: string
  sha :: string

record GitHubPullRequest =
  pr_id :: int
  number :: int
  title :: string
  body :: "string option"
  user :: "string option"
  head :: "GitHubBranch option"
  base :: "GitHubBranch option"
  state :: string
  created_at :: "int option"
  html_url :: "string option"

record GitHubComment =
  comment_id :: int
  comment_body :: string
  comment_user :: "string option"
  comment_created_at :: "int option"
  pull_request_number :: "int option"

text \<open>
  Every request to Jira or GitHub is recorded, in order, in the field \<open>calls\<close> of the state;
  that trace is what "an external call was made" means below.
\<close>

datatype call =
  GetPull int
  | GetIssue int
  | CreateComment int string
  | SearchIssues string
  | JiraCreateIssue issue_data
  | JiraIssueFetch string

text \<open>
  The two platforms and the libraries in front of them are the environment: each answer
  may depend on everything requested so far, and is a value or a raised exception.
  \<open>'raw\<close> is the Jira library's issue resource, read by \<open>_transform_jira_issue\<close>
  (which parses its dates and may raise); GitHub's objects are identified with the records
  the client copies them into. \<open>now\<close> is \<open>datetime.now()\<close>, \<open>fmt_1f\<close> the
  float format \<open>:.1f\<close>.
\<close>

record 'raw env =
  token_sort_ratio :: ratio_fn
  repo_get_pull :: "call list \<Rightarrow> int \<Rightarrow> exn + GitHubPullRequest"
  repo_get_issue :: "call list \<Rightarrow> int \<Rightarrow> exn + unit"
  issue_create_comment :: "call list \<Rightarrow> int \<Rightarrow> string \<Rightarrow> exn + GitHubComment"
  jira_search_issues :: "call list \<Rightarrow> string \<Rightarrow> exn + 'raw list"
  jira_create_issue :: "call list \<Rightarrow> issue_data \<Rightarrow> exn + string"
  jira_issue :: "call list \<Rightarrow> string \<Rightarrow> exn + 'raw"
  transform_jira_issue :: "'raw \<Rightarrow> exn + JiraIssue"
  now :: "call list \<Rightarrow> int"
  fmt_1f :: "real \<Rightarrow> string"

record Config =
  jira_host :: string
  jira_project_key :: string
  github_owner :: string
  github_repo :: string
  webhook_secret :: string

text \<open>\<open>self.issues\<close> and \<open>self.last_sync\<close> of the Jira client, with the trace.\<close>

record client =
  issues :: "JiraIssue list"
  last_sync :: "int option"
  calls :: "call list"

definition record_call :: "call \<Rightarrow> client \<Rightarrow> client" where
  "record_call c st = st\<lparr>calls := calls st @ [c]\<rparr>"

section \<open>Jira client (jira\_client.py)\<close>

text \<open>The list comprehension over the fetched issues: the first exception ends it.\<close>

fun transform_all :: "('raw \<Rightarrow> exn + JiraIssue) \<Rightarrow> 'raw list \<Rightarrow> exn + JiraIssue list" where
  "transform_all f [] = Inr []"
| "transform_all f (x # xs) =
     (case f x of
        Inl e \<Rightarrow> Inl e
      | Inr i \<Rightarrow> (case transform_all f xs of Inl e \<Rightarrow> Inl e | Inr is \<Rightarrow> Inr (i # is)))"

text \<open>
  The query of \<open>sync_issues\<close>; the request also carries the constants
  \<open>maxResults=1000\<close> and the list of fields.
\<close>

definition build_jql :: "Config \<Rightarrow> string" where
  "build_jql cfg = ''project = '' @ jira_project_key cfg @ '' ORDER BY updated DESC''"

definition sync_issues :: "'raw env \<Rightarrow> Config \<Rightarrow> client \<Rightarrow> (exn + unit) \<times> client" where
  "sync_issues env cfg st =
     (let jql = build_jql cfg;
          st1 = record_call (SearchIssues jql) st
      in case jira_search_issues env (calls st) jql of
           Inl e \<Rightarrow> (Inl e, st1)
         | Inr raws \<Rightarrow>
             (case transform_all (transform_jira_issue env) raws of
                Inl e \<Rightarrow> (Inl e, st1)
              | Inr is \<Rightarrow> (Inr (), st1\<lparr>issues := is, last_sync := Some (now env (calls st1))\<rparr>)))"

text \<open>Five minutes on the clock of \<open>now\<close>, which counts microseconds.\<close>

definition five_minutes :: int where
  "five_minutes = 300000000"

definition needs_sync :: "'raw env \<Rightarrow> client \<Rightarrow> bool" where
  "needs_sync env st =
     (case last_sync st of
        None \<Rightarrow> True
      | Some t \<Rightarrow> t < now env (calls st) - five_minutes)"

text \<open>A method of the client: it returns its result and the state it leaves.\<close>

definition find_similar_issues ::
  "ratio_fn \<Rightarrow> client \<Rightarrow> string \<Rightarrow> real \<Rightarrow> IssueMatchResult list \<times> client" where
  "find_similar_issues ratio st search_text threshold =
     (if issues st = [] then ([], st)
      else (sort_desc (List.map_filter (score_issue ratio search_text threshold) (issues st)), st))"

definition build_issue_data :: "CreateJiraIssueRequest \<Rightarrow> issue_data" where
  "build_issue_data request =
     \<lparr>data_project = req_project_key request,
      data_summary = req_summary request,
      data_description = (case req_description request of None \<Rightarrow> [] | Some d \<Rightarrow> d),
      data_issuetype = req_issue_type request,
      data_labels = req_labels request,
      data_assignee = (case req_assignee request of
                         None \<Rightarrow> None | Some a \<Rightarrow> if a = [] then None else Some a),
      data_priority = (case req_priority request of
                         None \<Rightarrow> None | Some p \<Rightarrow> if p = [] then None else Some p)\<rparr>"

definition create_issue ::
  "'raw env \<Rightarrow> client \<Rightarrow> CreateJiraIssueRequest \<Rightarrow> (exn + JiraIssue) \<times> client" where
  "create_issue env st request =
     (let fields = build_issue_data request;
          st1 = record_call (JiraCreateIssue fields) st
      in case jira_create_issue env (calls st) fields of
           Inl e \<Rightarrow> (Inl e, st1)
         | Inr new_key \<Rightarrow>
             (let st2 = record_call (JiraIssueFetch new_key) st1
              in case jira_issue env (calls st1) new_key of
                   Inl e \<Rightarrow> (Inl e, st2)
                 | Inr created_issue \<Rightarrow>
                     (case transform_jira_issue env created_issue of
                        Inl e \<Rightarrow> (Inl e, st2)
                      | Inr transformed_issue \<Rightarrow>
                          (Inr transformed_issue,
                           st2\<lparr>issues := transformed_issue # issues st2\<rparr>))))"

section \<open>Regular expressions of the GitHub client\<close>

text \<open>
  A pattern is a function from the text at a position to the captured group, if it
  matches there. \<open>re.search\<close> tries the positions from left to right and returns the
  first match.
\<close>

fun re_search :: "(string \<Rightarrow> 'a option) \<Rightarrow> string \<Rightarrow> 'a option" where
  "re_search m [] = m []"
| "re_search m (c # cs) = (case m (c # cs) of Some g \<Rightarrow> Some g | None \<Rightarrow> re_search m cs)"

text \<open>A literal word, then the rest of the pattern.\<close>

definition literal :: "string \<Rightarrow> (string \<Rightarrow> 'a option) \<Rightarrow> string \<Rightarrow> 'a option" where
  "literal w m s = (if take (length w) s = w then m (drop (length w) s) else None)"

text \<open>The same under \<open>re.IGNORECASE\<close>; the word \<open>w\<close> is given in lower case.\<close>

definition literal_ci :: "string \<Rightarrow> (string \<Rightarrow> 'a option) \<Rightarrow> string \<Rightarrow> 'a option" where
  "literal_ci w m s =
     (if map lower_char (take (length w) s) = w then m (drop (length w) s) else None)"

text \<open>
  A greedy \<open>X+\<close>, then the rest of the pattern: the longest run of the class is taken
  first and given back one character at a time, down to one character.
\<close>

fun give_back :: "(string \<Rightarrow> 'a option) \<Rightarrow> nat \<Rightarrow> string \<Rightarrow> 'a option" where
  "give_back m 0 s = None"
| "give_back m (Suc k) s =
     (case m (drop (Suc k) s) of Some g \<Rightarrow> Some g | None \<Rightarrow> give_back m k s)"

definition plus_then :: "(char \<Rightarrow> bool) \<Rightarrow> (string \<Rightarrow> 'a option) \<Rightarrow> string \<Rightarrow> 'a option" where
  "plus_then cls m s = give_back m (length (takeWhile cls s)) s"

text \<open>A greedy optional letter \<open>c?\<close> under \<open>re.IGNORECASE\<close>, then the rest.\<close>

definition optional_ci :: "char \<Rightarrow> (string \<Rightarrow> 'a option) \<Rightarrow> string \<Rightarrow> 'a option" where
  "optional_ci c m s =
     (case s of
        [] \<Rightarrow> m []
      | x # xs \<Rightarrow>
          if lower_char x = c
          then (case m xs of Some g \<Rightarrow> Some g | None \<Rightarrow> m s)
          else m s)"

text \<open>The end of a pattern without a group.\<close>

definition matched :: "string \<Rightarrow> unit option" where
  "matched s = Some ()"

text \<open>The class \<open>[:\s]\<close>.\<close>

definition is_sep :: "char \<Rightarrow> bool" where
  "is_sep c \<longleftrightarrow> c = CHR '':'' \<or> is_space c"

text \<open>The group \<open>([^\n\r]+)\<close> at the end of a pattern.\<close>

definition rest_of_line :: "string \<Rightarrow> string option" where
  "rest_of_line s =
     (let g = takeWhile (\<lambda>c. c \<noteq> CHR 0x0A \<and> c \<noteq> CHR 0x0D) s
      in if g = [] then None else Some g)"

text \<open>
  The group \<open>(bug|task|story|epic)\<close> under \<open>re.IGNORECASE\<close>: the first alternative
  that matches; the group is the text as it stands in the comment.
\<close>

fun one_of_ci :: "string list \<Rightarrow> string \<Rightarrow> string option" where
  "one_of_ci [] s = None"
| "one_of_ci (w # ws) s =
     (if map lower_char (take (length w) s) = w then Some (take (length w) s)
      else one_of_ci ws s)"

section \<open>GitHub client (github\_client.py)\<close>

definition get_pull_request ::
  "'raw env \<Rightarrow> client \<Rightarrow> int \<Rightarrow> GitHubPullRequest option \<times> client" where
  "get_pull_request env st n =
     (let st1 = record_call (GetPull n) st
      in case repo_get_pull env (calls st) n of
           Inl e \<Rightarrow> (None, st1)
         | Inr pr \<Rightarrow> (Some pr, st1))"

definition add_comment ::
  "'raw env \<Rightarrow> client \<Rightarrow> int \<Rightarrow> string \<Rightarrow> (exn + GitHubComment) \<times> client" where
  "add_comment env st n text =
     (let st1 = record_call (GetIssue n) st
      in case repo_get_issue env (calls st) n of
           Inl e \<Rightarrow> (Inl e, st1)
         | Inr _ \<Rightarrow>
             (let st2 = record_call (CreateComment n text) st1
              in case issue_create_comment env (calls st1) n text of
                   Inl e \<Rightarrow> (Inl e, st2)
                 | Inr c \<Rightarrow> (Inr c, st2)))"

text \<open>The six trigger patterns, each \<open>word\s+word\<close>.\<close>

definition triggers :: "(string \<times> string) list" where
  "triggers =
     [(''create'', ''jira''), (''make'', ''jira''), (''new'', ''jira''),
      (''jira'', ''issue''), (''create'', ''issue''), (''create'', ''ticket'')]"

definition is_create_jira_comment :: "string \<Rightarrow> bool" where
  "is_create_jira_comment comment =
     (let comment_lower = lower comment
      in list_ex (\<lambda>(a, b).
           re_search (literal a (plus_then is_space (literal b matched))) comment_lower \<noteq> None)
           triggers)"

text \<open>\<open>summary[:\s]+([^\n\r]+)\<close>, the pattern at one position.\<close>

definition summary_pattern :: "string \<Rightarrow> string option" where
  "summary_pattern = literal_ci ''summary'' (plus_then is_sep rest_of_line)"

text \<open>\<open>type[:\s]+(bug|task|story|epic)\<close>\<close>

definition type_pattern :: "string \<Rightarrow> string option" where
  "type_pattern =
     literal_ci ''type'' (plus_then is_sep (one_of_ci [''bug'', ''task'', ''story'', ''epic'']))"

text \<open>\<open>labels?[:\s]+([^\n\r]+)\<close>\<close>

definition labels_pattern :: "string \<Rightarrow> string option" where
  "labels_pattern =
     literal_ci ''label'' (optional_ci (CHR ''s'') (plus_then is_sep rest_of_line))"

text \<open>The three calls of \<open>re.search(pattern, comment, re.IGNORECASE)\<close>, with group 1.\<close>

definition summary_match :: "string \<Rightarrow> string option" where
  "summary_match comment = re_search summary_pattern comment"

definition type_match :: "string \<Rightarrow> string option" where
  "type_match comment = re_search type_pattern comment"

definition labels_match :: "string \<Rightarrow> string option" where
  "labels_match comment = re_search labels_pattern comment"

definition get_pr_url :: "Config \<Rightarrow> int \<Rightarrow> string" where
  "get_pr_url cfg n =
     ''https://github.com/'' @ github_owner cfg @ ''/'' @ github_repo cfg
     @ ''/pull/'' @ str_int n"

record jira_details =
  det_summary :: string
  det_description :: string
  det_issue_type :: string
  det_labels :: "string list"

text \<open>
  \<open>if pr_number:\<close> is false for \<open>None\<close> and for 0, \<open>if pr_body:\<close> for \<open>None\<close> and for
  the empty string.
\<close>

definition extract_jira_details ::
  "Config \<Rightarrow> string \<Rightarrow> string \<Rightarrow> string option \<Rightarrow> int option \<Rightarrow> jira_details" where
  "extract_jira_details cfg comment pr_title pr_body pr_number =
     (let summary_m = summary_match comment;
          type_m = type_match comment;
          labels_m = labels_match comment;
          summary_v = (case summary_m of
                         Some g \<Rightarrow> strip g
                       | None \<Rightarrow> ''[GitHub PR] '' @ pr_title);
          issue_type_v = (case type_m of Some g \<Rightarrow> title_case g | None \<Rightarrow> ''Task'');
          labels_v = [''github-pr'']
                     @ (case labels_m of
                          Some g \<Rightarrow> map strip (split_comma g)
                        | None \<Rightarrow> []);
          description_parts =
            [''Created from GitHub Pull Request'' @ newline]
            @ (case pr_number of
                 None \<Rightarrow> []
               | Some n \<Rightarrow>
                   if n = 0 then []
                   else [''**Original PR:** [#'' @ str_int n @ '' '' @ pr_title @ ''](''
                         @ get_pr_url cfg n @ '')'' @ newline])
            @ (case pr_body of
                 None \<Rightarrow> []
               | Some b \<Rightarrow>
                   if b = [] then []
                   else [''**PR Description:**'' @ newline @ b @ newline])
            @ [''**Comment that triggered creation:**'' @ newline @ comment]
      in \<lparr>det_summary = summary_v,
          det_description = join newline description_parts,
          det_issue_type = issue_type_v,
          det_labels = labels_v\<rparr>)"

section \<open>Comment processing (webhook\_server.py)\<close>

record ProcessingResult =
  action :: string
  res_issue :: "JiraIssue option"
  similarity :: "real option"
  reason :: "string option"

text \<open>\<open>str(error)\<close>; for \<open>HTTPException\<close> it is the status code and the detail.\<close>

fun str_exn :: "exn \<Rightarrow> string" where
  "str_exn (Exception m) = m"
| "str_exn (TypeError m) = m"
| "str_exn (JSONDecodeError m) = m"
| "str_exn (HTTPException n d) = str_nat n @ '': '' @ d"

text \<open>
  The three comments the webhook server posts. Each starts with the bytes that stand in
  the source file where an emoji was meant.
\<close>

definition found_similar_comment :: "'raw env \<Rightarrow> Config \<Rightarrow> IssueMatchResult \<Rightarrow> string" where
  "found_similar_comment env cfg best_match =
     [CHR 0xC3, CHR 0xB0, CHR 0xC5, CHR 0xB8, CHR 0xE2, CHR 0x80, CHR 0x9D]
     @ '' **Found similar existing Jira issue:**'' @ newline @ newline
     @ ''['' @ key (issue best_match) @ ''](''
     @ jira_host cfg @ ''/browse/'' @ key (issue best_match) @ '') - ''
     @ summary (issue best_match) @ newline @ newline
     @ ''**Similarity score:** '' @ fmt_1f env (score best_match * 100) @ ''%'' @ newline
     @ ''**Matched fields:** '' @ join '', '' (matched_fields best_match) @ newline @ newline
     @ ''Please check if this existing issue covers your request before creating a new one.''"

definition created_comment :: "Config \<Rightarrow> JiraIssue \<Rightarrow> string" where
  "created_comment cfg new_issue =
     [CHR 0xC3, CHR 0xA2, CHR 0xC5, CHR 0x93, CHR 0xE2, CHR 0x80, CHR 0xA6]
     @ '' **Created Jira issue:**'' @ newline @ newline
     @ ''['' @ key new_issue @ '']('' @ jira_host cfg @ ''/browse/'' @ key new_issue @ '') - ''
     @ summary new_issue @ newline @ newline
     @ ''**Type:** ''
     @ (case issue_type new_issue of Some t \<Rightarrow> t | None \<Rightarrow> ''Unknown'') @ newline
     @ ''**Labels:** ''
     @ (if labels new_issue \<noteq> [] then join '', '' (labels new_issue) else ''None'')"

definition error_comment :: "exn \<Rightarrow> string" where
  "error_comment error =
     [CHR 0xC3, CHR 0xA2, CHR 0xC5, CHR 0x92]
     @ '' **Error creating Jira issue:**'' @ newline @ newline
     @ str_exn error @ newline @ newline
     @ ''Please check the server logs or try again later.''"

definition create_request :: "Config \<Rightarrow> jira_details \<Rightarrow> CreateJiraIssueRequest" where
  "create_request cfg details =
     \<lparr>req_summary = det_summary details,
      req_issue_type = det_issue_type details,
      req_project_key = jira_project_key cfg,
      req_description = Some (det_description details),
      req_labels = det_labels details,
      req_assignee = None,
      req_priority = None\<rparr>"

text \<open>The body of the \<open>try\<close> block of \<open>_process_pr_comment_for_jira\<close>.\<close>

definition process_try ::
  "'raw env \<Rightarrow> Config \<Rightarrow> client \<Rightarrow> int \<Rightarrow> string \<Rightarrow> real
     \<Rightarrow> (exn + ProcessingResult) \<times> client" where
  "process_try env cfg st pr_number comment threshold =
     (if \<not> is_create_jira_comment comment
      then (Inr \<lparr>action = ''skipped'', res_issue = None, similarity = None,
                 reason = Some ''No Jira creation request found''\<rparr>, st)
      else
        (case get_pull_request env st pr_number of
           (None, st1) \<Rightarrow>
             (Inl (Exception (''Pull request #'' @ str_int pr_number @ '' not found'')), st1)
         | (Some pr, st1) \<Rightarrow>
             (let details = extract_jira_details cfg comment (title pr) (body pr)
                              (Some (number pr))
              in case (if needs_sync env st1 then sync_issues env cfg st1
                       else (Inr (), st1)) of
                   (Inl e, st2) \<Rightarrow> (Inl e, st2)
                 | (Inr _, st2) \<Rightarrow>
                     (let search_text = det_summary details @ '' '' @ det_description details
                      in case find_similar_issues (token_sort_ratio env) st2 search_text
                                threshold of
                           (best_match # _, st3) \<Rightarrow>
                             (case add_comment env st3 pr_number
                                     (found_similar_comment env cfg best_match) of
                                (Inl e, st4) \<Rightarrow> (Inl e, st4)
                              | (Inr _, st4) \<Rightarrow>
                                  (Inr \<lparr>action = ''found_similar'',
                                        res_issue = Some (issue best_match),
                                        similarity = Some (score best_match),
                                        reason = None\<rparr>, st4))
                         | ([], st3) \<Rightarrow>
                             (case create_issue env st3 (create_request cfg details) of
                                (Inl e, st4) \<Rightarrow> (Inl e, st4)
                              | (Inr new_issue, st4) \<Rightarrow>
                                  (case add_comment env st4 pr_number
                                          (created_comment cfg new_issue) of
                                     (Inl e, st5) \<Rightarrow> (Inl e, st5)
                                   | (Inr _, st5) \<Rightarrow>
                                       (Inr \<lparr>action = ''created'',
                                             res_issue = Some new_issue,
                                             similarity = None,
                                             reason = None\<rparr>, st5)))))))"

text \<open>
  \<open>_process_pr_comment_for_jira\<close>: the \<open>except Exception\<close> handler posts the error
  comment, ignores a failure of that, and raises the error again.
\<close>

definition process_pr_comment_for_jira ::
  "'raw env \<Rightarrow> Config \<Rightarrow> client \<Rightarrow> int \<Rightarrow> string \<Rightarrow> real
     \<Rightarrow> (exn + ProcessingResult) \<times> client" where
  "process_pr_comment_for_jira env cfg st pr_number comment threshold =
     (case process_try env cfg st pr_number comment threshold of
        (Inr r, st1) \<Rightarrow> (Inr r, st1)
      | (Inl error, st1) \<Rightarrow>
          (case add_comment env st1 pr_number (error_comment error) of
             (Inl comment_error, st2) \<Rightarrow> (Inl error, st2)
           | (Inr _, st2) \<Rightarrow> (Inl error, st2)))"

section \<open>Comment processing (mcp\_server.py)\<close>

definition found_similar_comment_mcp :: "'raw env \<Rightarrow> Config \<Rightarrow> IssueMatchResult \<Rightarrow> string" where
  "found_similar_comment_mcp env cfg best_match =
     [CHR 0xF0, CHR 0x9F, CHR 0x94, CHR 0x8D]
     @ '' Found similar existing Jira issue: ['' @ key (issue best_match) @ ''](''
     @ jira_host cfg @ ''/browse/'' @ key (issue best_match) @ '') - ''
     @ summary (issue best_match) @ newline @ newline
     @ ''Similarity score: '' @ fmt_1f env (score best_match * 100) @ ''%'' @ newline
     @ ''Matched fields: '' @ join '', '' (matched_fields best_match) @ newline @ newline
     @ ''Please check if this existing issue covers your request before creating a new one.''"

definition created_comment_mcp :: "Config \<Rightarrow> JiraIssue \<Rightarrow> string" where
  "created_comment_mcp cfg new_issue =
     [CHR 0xE2, CHR 0x9C, CHR 0x85]
     @ '' Created Jira issue: ['' @ key new_issue @ '']('' @ jira_host cfg @ ''/browse/''
     @ key new_issue @ '') - '' @ summary new_issue"

text \<open>\<open>_process_pr_comment_for_jira_impl\<close>: the same steps, no handler, a text as result.\<close>

definition process_pr_comment_for_jira_impl ::
  "'raw env \<Rightarrow> Config \<Rightarrow> client \<Rightarrow> int \<Rightarrow> string \<Rightarrow> real \<Rightarrow> (exn + string) \<times> client" where
  "process_pr_comment_for_jira_impl env cfg st pr_number comment threshold =
     (if \<not> is_create_jira_comment comment
      then (Inr ''Comment does not contain a request to create a Jira issue'', st)
      else
        (case get_pull_request env st pr_number of
           (None, st1) \<Rightarrow>
             (Inl (Exception (''Pull request #'' @ str_int pr_number @ '' not found'')), st1)
         | (Some pr, st1) \<Rightarrow>
             (let details = extract_jira_details cfg comment (title pr) (body pr)
                              (Some (number pr))
              in case (if needs_sync env st1 then sync_issues env cfg st1
                       else (Inr (), st1)) of
                   (Inl e, st2) \<Rightarrow> (Inl e, st2)
                 | (Inr _, st2) \<Rightarrow>
                     (let search_text = det_summary details @ '' '' @ det_description details
                      in case find_similar_issues (token_sort_ratio env) st2 search_text
                                threshold of
                           (best_match # _, st3) \<Rightarrow>
                             (case add_comment env st3 pr_number
                                     (found_similar_comment_mcp env cfg best_match) of
                                (Inl e, st4) \<Rightarrow> (Inl e, st4)
                              | (Inr _, st4) \<Rightarrow>
                                  (Inr (''Found similar existing issue: ''
                                        @ key (issue best_match) @ '' (''
                                        @ fmt_1f env (score best_match * 100)
                                        @ ''% similarity). Added comment to PR with details.''),
                                   st4))
                         | ([], st3) \<Rightarrow>
                             (case create_issue env st3 (create_request cfg details) of
                                (Inl e, st4) \<Rightarrow> (Inl e, st4)
                              | (Inr new_issue, st4) \<Rightarrow>
                                  (case add_comment env st4 pr_number
                                          (created_comment_mcp cfg new_issue) of
                                     (Inl e, st5) \<Rightarrow> (Inl e, st5)
                                   | (Inr _, st5) \<Rightarrow>
                                       (Inr (''Created new Jira issue: '' @ key new_issue
                                             @ '' - '' @ summary new_issue), st5)))))))"

section \<open>Webhook ingress (webhook\_server.py)\<close>

text \<open>
  \<open>hmac.compare_digest\<close> on two \<open>str\<close> values raises \<open>TypeError\<close> when one of them has a
  character outside ASCII; otherwise it is equality.
\<close>

definition is_ascii :: "string \<Rightarrow> bool" where
  "is_ascii s = list_all (\<lambda>c. (of_char c :: nat) < 128) s"

definition compare_digest :: "string \<Rightarrow> string \<Rightarrow> exn + bool" where
  "compare_digest a b =
     (if is_ascii a \<and> is_ascii b then Inr (a = b)
      else Inl (TypeError ''comparing strings with non-ASCII characters is not supported''))"

text \<open>
  \<open>hexdigest\<close> is the parameter for \<open>hmac.new(key, payload, hashlib.sha256).hexdigest()\<close>.
  \<open>if not signature\<close> is true for \<open>None\<close> and for the empty string.
\<close>

definition verify_signature ::
  "(string \<Rightarrow> string \<Rightarrow> string) \<Rightarrow> Config \<Rightarrow> string \<Rightarrow> string option \<Rightarrow> exn + bool" where
  "verify_signature hexdigest cfg payload signature =
     (case signature of
        None \<Rightarrow> Inr False
      | Some sig \<Rightarrow>
          if sig = [] then Inr False
          else compare_digest (''sha256='' @ hexdigest (webhook_secret cfg) payload) sig)"

record request =
  raw_body :: string
  x_hub_signature_256 :: "string option"
  x_github_event :: "string option"

text \<open>
  What the handler did with the body: parsed it, scheduled the background task.
  \<open>'p\<close> is the parsed payload; \<open>json_loads\<close> is the parameter for
  \<open>json.loads(body.decode("utf-8"))\<close>.
\<close>

datatype 'p ingress_step = JsonLoads | AddTask "string option" 'p

datatype response = Success

definition webhook_try ::
  "(string \<Rightarrow> string \<Rightarrow> string) \<Rightarrow> (string \<Rightarrow> exn + 'p) \<Rightarrow> Config \<Rightarrow> request
     \<Rightarrow> (exn + response) \<times> 'p ingress_step list" where
  "webhook_try hexdigest json_loads cfg req =
     (case verify_signature hexdigest cfg (raw_body req) (x_hub_signature_256 req) of
        Inl e \<Rightarrow> (Inl e, [])
      | Inr False \<Rightarrow> (Inl (HTTPException 401 ''Invalid signature''), [])
      | Inr True \<Rightarrow>
          (case json_loads (raw_body req) of
             Inl e \<Rightarrow> (Inl e, [JsonLoads])
           | Inr payload \<Rightarrow> (Inr Success, [JsonLoads, AddTask (x_github_event req) payload])))"

text \<open>
  \<open>github_webhook\<close>: the \<open>try\<close> block and its two handlers, \<open>except json.JSONDecodeError\<close>
  and then \<open>except Exception\<close>, which every other exception raised in the block reaches.
\<close>

definition github_webhook ::
  "(string \<Rightarrow> string \<Rightarrow> string) \<Rightarrow> (string \<Rightarrow> exn + 'p) \<Rightarrow> Config \<Rightarrow> request
     \<Rightarrow> (exn + response) \<times> 'p ingress_step list" where
  "github_webhook hexdigest json_loads cfg req =
     (case webhook_try hexdigest json_loads cfg req of
        (Inr r, steps) \<Rightarrow> (Inr r, steps)
      | (Inl (JSONDecodeError m), steps) \<Rightarrow>
          (Inl (HTTPException 400 ''Invalid JSON payload''), steps)
      | (Inl error, steps) \<Rightarrow>
          (Inl (HTTPException 500 ''Internal server error''), steps))"

section \<open>Structured fields, in the words of the specification\<close>

text \<open>
  What it means for a comment to carry a field, said of the text and not of the patterns.
  \<open>starts_ci kw s\<close>: the text \<open>s\<close> begins with the keyword, in any case.
\<close>

definition starts_ci :: "string \<Rightarrow> string \<Rightarrow> bool" where
  "starts_ci kw s \<longleftrightarrow> map lower_char (take (length kw) s) = kw"

text \<open>A field starts here: the keyword, then a colon or a whitespace character.\<close>

definition field_start :: "string \<Rightarrow> string \<Rightarrow> bool" where
  "field_start kw s \<longleftrightarrow>
     starts_ci kw s \<and> (case drop (length kw) s of [] \<Rightarrow> False | c # cs \<Rightarrow> is_sep c)"

text \<open>A field starts somewhere in the comment.\<close>

fun has_field_start :: "string \<Rightarrow> string \<Rightarrow> bool" where
  "has_field_start kw [] = False"
| "has_field_start kw (c # cs) = (field_start kw (c # cs) \<or> has_field_start kw cs)"

text \<open>The word occurs somewhere in the text, in any case.\<close>

fun occurs_ci :: "string \<Rightarrow> string \<Rightarrow> bool" where
  "occurs_ci kw [] = (kw = [])"
| "occurs_ci kw (c # cs) = (starts_ci kw (c # cs) \<or> occurs_ci kw cs)"

text \<open>
  A value \<open>v\<close> followed by \<open>rest\<close>: it is not empty, does not begin with a colon or
  whitespace, holds no line break, and runs to the end of its line.
\<close>

definition line_value :: "string \<Rightarrow> string \<Rightarrow> bool" where
  "line_value v rest \<longleftrightarrow>
     v \<noteq> [] \<and> \<not> is_sep (hd v) \<and> list_all (\<lambda>c. c \<noteq> CHR 0x0A \<and> c \<noteq> CHR 0x0D) v
     \<and> (case rest of [] \<Rightarrow> True | c # cs \<Rightarrow> c = CHR 0x0A \<or> c = CHR 0x0D)"

section \<open>A concrete configuration and environment\<close>

text \<open>Used where a statement is evaluated on an example.\<close>

definition demo_cfg :: Config where
  "demo_cfg =
     \<lparr>jira_host = ''https://jira.example.com'', jira_project_key = ''PROJ'',
      github_owner = ''acme'', github_repo = ''shop'', webhook_secret = ''s3cret''\<rparr>"

definition demo_issue :: "string \<Rightarrow> string \<Rightarrow> JiraIssue" where
  "demo_issue k s =
     \<lparr>issue_id = ''1'', key = k, summary = s, description = None, status = None,
      issue_type = None, project = None, assignee = None, reporter = None,
      created = None, updated = None, labels = []\<rparr>"

definition demo_pr :: GitHubPullRequest where
  "demo_pr =
     \<lparr>pr_id = 1, number = 7, title = ''Fix login'', body = None, user = None, head = None,
      base = None, state = ''open'', created_at = None, html_url = None\<rparr>"

definition demo_comment :: "int \<Rightarrow> string \<Rightarrow> GitHubComment" where
  "demo_comment n text =
     \<lparr>comment_id = 1, comment_body = text, comment_user = None, comment_created_at = None,
      pull_request_number = Some n\<rparr>"

text \<open>An issue with a description and one label.\<close>

definition tagged_issue :: "string \<Rightarrow> string \<Rightarrow> string \<Rightarrow> JiraIssue" where
  "tagged_issue s d l = (demo_issue ''PROJ-3'' s)\<lparr>description := Some d, labels := [l]\<rparr>"

text \<open>A similarity that is 100 for equal texts and 50 otherwise.\<close>

definition demo_ratio :: ratio_fn where
  "demo_ratio a b = (if a = b then 100 else 50)"

text \<open>Both platforms answer; the raw Jira issue is the issue itself.\<close>

definition demo_env :: "JiraIssue env" where
  "demo_env =
     \<lparr>token_sort_ratio = demo_ratio,
      repo_get_pull = (\<lambda>h n. Inr demo_pr),
      repo_get_issue = (\<lambda>h n. Inr ()),
      issue_create_comment = (\<lambda>h n text. Inr (demo_comment n text)),
      jira_search_issues = (\<lambda>h q. Inr [demo_issue ''PROJ-1'' ''Old issue'']),
      jira_create_issue = (\<lambda>h d. Inr ''PROJ-2''),
      jira_issue = (\<lambda>h k. Inr (demo_issue k ''New issue'')),
      transform_jira_issue = Inr,
      now = (\<lambda>h. 1000000000),
      fmt_1f = (\<lambda>x. ''50.0'')\<rparr>"

text \<open>Both platforms are down: every request raises.\<close>

definition down_env :: "JiraIssue env" where
  "down_env =
     \<lparr>token_sort_ratio = demo_ratio,
      repo_get_pull = (\<lambda>h n. Inl (Exception ''github down'')),
      repo_get_issue = (\<lambda>h n. Inl (Exception ''github down'')),
      issue_create_comment = (\<lambda>h n text. Inl (Exception ''github down'')),
      jira_search_issues = (\<lambda>h q. Inl (Exception ''jira down'')),
      jira_create_issue = (\<lambda>h d. Inl (Exception ''jira down'')),
      jira_issue = (\<lambda>h k. Inl (Exception ''jira down'')),
      transform_jira_issue = Inr,
      now = (\<lambda>h. 1000000000),
      fmt_1f = (\<lambda>x. ''50.0'')\<rparr>"

definition demo_client :: client where
  "demo_client =
     \<lparr>issues = [demo_issue ''PROJ-1'' ''Old issue''], last_sync = Some 999999999, calls = []\<rparr>"

definition cache_of :: "JiraIssue list \<Rightarrow> client" where
  "cache_of is = \<lparr>issues = is, last_sync = None, calls = []\<rparr>"

definition demo_request :: CreateJiraIssueRequest where
  "demo_request =
     \<lparr>req_summary = ''New issue'', req_issue_type = ''Task'', req_project_key = ''PROJ'',
      req_description = None, req_labels = [''github-pr''], req_assignee = None,
      req_priority = None\<rparr>"

text \<open>The first test vector of the specification.\<close>

definition vector1 :: string where
  "vector1 = ''Summary: Fix login'' @ newline @ ''Type: Bug'' @ newline
             @ ''Labels: frontend, urgent''"

section \<open>Evaluation lemmas for the examples\<close>

lemma not_trigger: "\<not> is_create_jira_comment ''looks good to me''"
  by (simp add: is_create_jira_comment_def triggers_def lower_def lower_char_def literal_def
      plus_then_def matched_def is_space_def)

lemma is_trigger: "is_create_jira_comment ''create jira''"
  by (simp add: is_create_jira_comment_def triggers_def lower_def lower_char_def literal_def
      plus_then_def matched_def is_space_def)

lemma create_issue_demo:
  "create_issue demo_env demo_client demo_request =
     (Inr (demo_issue ''PROJ-2'' ''New issue''),
      demo_client\<lparr>calls := [JiraCreateIssue (build_issue_data demo_request),
                              JiraIssueFetch ''PROJ-2''],
                    issues := demo_issue ''PROJ-2'' ''New issue'' # issues demo_client\<rparr>)"
  by (simp add: create_issue_def record_call_def Let_def demo_env_def demo_client_def)

lemma process_try_down:
  "process_try down_env demo_cfg demo_client 7 ''create jira'' 0.7
     = (Inl (Exception ''Pull request #7 not found''), demo_client\<lparr>calls := [GetPull 7]\<rparr>)"
  using is_trigger
  by (simp add: process_try_def get_pull_request_def record_call_def down_env_def
      demo_client_def str_int_def)

section \<open>Regular expressions: evaluation and search\<close>

lemmas regex_defs = summary_match_def type_match_def labels_match_def
  summary_pattern_def type_pattern_def labels_pattern_def
  literal_ci_def plus_then_def optional_ci_def rest_of_line_def is_sep_def is_space_def
  lower_char_def

lemma vector1_summary: "summary_match vector1 = Some ''Fix login''"
  by (simp add: vector1_def newline_def regex_defs)

lemma vector1_type: "type_match vector1 = Some ''Bug''"
  by (simp add: vector1_def newline_def regex_defs)

lemma vector1_labels: "labels_match vector1 = Some ''frontend, urgent''"
  by (simp add: vector1_def newline_def regex_defs)

lemma vector2_no_fields: "summary_match ''create jira for this'' = None"
  "type_match ''create jira for this'' = None"
  "labels_match ''create jira for this'' = None"
  by (simp_all add: regex_defs)

lemma re_search_skip:
  "(\<forall>i < length pre. m (drop i (pre @ rest)) = None)
     \<Longrightarrow> re_search m (pre @ rest) = re_search m rest"
proof (induction pre)
  case Nil
  then show ?case by simp
next
  case (Cons c pre)
  have z: "m ((c # pre) @ rest) = None" using Cons.prems by fastforce
  have "\<forall>i < length pre. m (drop i (pre @ rest)) = None"
  proof (intro allI impI)
    fix i assume "i < length pre"
    then have "Suc i < length (c # pre)" by simp
    with Cons.prems have "m (drop (Suc i) ((c # pre) @ rest)) = None" by blast
    then show "m (drop i (pre @ rest)) = None" by simp
  qed
  with Cons.IH have "re_search m (pre @ rest) = re_search m rest" by blast
  with z show ?case by simp
qed

lemma re_search_here: "m s = Some g \<Longrightarrow> re_search m s = Some g"
  by (cases s) simp_all

lemma midline_prefix_none:
  "\<forall>i < length ''ok ''. summary_pattern (drop i (''ok '' @ ''summary: Fix X'')) = None"
  by (simp add: less_Suc_eq numeral_3_eq_3 regex_defs)

lemma midline_pattern_here: "summary_pattern ''summary: Fix X'' = Some ''Fix X''"
  by (simp add: regex_defs)

section \<open>Similarity scoring\<close>

lemma set_map_filter_eq:
  "set (List.map_filter f xs) = {y. \<exists>x \<in> set xs. f x = Some y}"
  by (induction xs) (auto split: option.splits)

lemma set_find_similar_issues:
  "set (fst (find_similar_issues ratio st q thr))
     = {r. \<exists>i \<in> set (issues st). score_issue ratio q thr i = Some r}"
  by (auto simp: find_similar_issues_def sort_desc_def set_map_filter_eq)

lemma score_issue_Some:
  "score_issue ratio q thr i = Some r \<longleftrightarrow>
     thr \<le> combined_score ratio q i
     \<and> r = \<lparr>score = combined_score ratio q i, issue = i,
            matched_fields = matched_fields_of ratio q thr i\<rparr>"
  by (auto simp: score_issue_def)



lemma map_issue_filter_scored:
  "map issue (filter (\<lambda>r. score r = v) (List.map_filter (score_issue ratio q thr) xs))
     = filter (\<lambda>i. thr \<le> combined_score ratio q i \<and> combined_score ratio q i = v) xs"
  by (induction xs) (auto simp: score_issue_def)

text \<open>
  Claim C4. The results are sorted by score, descending; for every score, the issues of
  the results with that score are exactly the cached issues with that combined score, in
  the order of the cache, so ties keep the input order; an empty cache gives the empty
  list; and the call leaves the client state, with its trace of external calls, as it was.
\<close>

theorem find_similar_sorted_stable:
  "sorted_wrt (\<lambda>a b. score a \<ge> score b) (fst (find_similar_issues ratio st q thr))
   \<and> (\<forall>v. map issue (filter (\<lambda>r. score r = v) (fst (find_similar_issues ratio st q thr)))
          = filter (\<lambda>i. thr \<le> combined_score ratio q i \<and> combined_score ratio q i = v)
              (issues st))
   \<and> (issues st = [] \<longrightarrow> find_similar_issues ratio st q thr = ([], st))
   \<and> snd (find_similar_issues ratio st q thr) = st"
proof -
  let ?rs = "List.map_filter (score_issue ratio q thr) (issues st)"
  have "sorted (map (\<lambda>r. - score r) (sort_desc ?rs))"
    by (simp add: sort_desc_def)
  then have s: "sorted_wrt (\<lambda>a b. score a \<ge> score b) (sort_desc ?rs)"
    by (simp add: sorted_map)
  have st: "filter (\<lambda>r. score r = v) (sort_desc ?rs) = filter (\<lambda>r. score r = v) ?rs" for v
    using sort_key_stable [of "\<lambda>r. - score r" "- v" ?rs]
    by (simp add: sort_desc_def)
  have e: "fst (find_similar_issues ratio st q thr) = sort_desc ?rs"
    by (simp add: find_similar_issues_def sort_desc_def)
  show ?thesis
    using s st map_issue_filter_scored [of _ ratio q thr "issues st"]
    by (simp add: e) (simp add: find_similar_issues_def)
qed


lemma demo_ratio_le: "\<forall>a b. demo_ratio a b \<le> 100"
  by (simp add: demo_ratio_def)



lemma two_scores:
  "combined_score demo_ratio ''x'' (demo_issue k ''Old issue'') = 7 / 20"
  "combined_score demo_ratio ''x'' (demo_issue k ''Other issue'') = 7 / 20"
  by (simp_all add: combined_score_def summary_score_def description_score_def labels_score_def
      demo_ratio_def demo_issue_def lower_def lower_char_def)

theorem find_similar_sorted_stable_witness:
  "find_similar_issues demo_ratio (cache_of []) ''x'' (3 / 10) = ([], cache_of [])
   \<and> map issue (filter (\<lambda>r. score r = 7 / 20)
        (fst (find_similar_issues demo_ratio
           (cache_of [demo_issue ''PROJ-1'' ''Old issue'', demo_issue ''PROJ-2'' ''Other issue''])
           ''x'' (3 / 10))))
     = [demo_issue ''PROJ-1'' ''Old issue'', demo_issue ''PROJ-2'' ''Other issue'']"
proof -
  have e: "issues (cache_of []) = []" by (simp add: cache_of_def)
  have a: "find_similar_issues demo_ratio (cache_of []) ''x'' (3 / 10) = ([], cache_of [])"
    using find_similar_sorted_stable [of demo_ratio "cache_of []" "''x''" "3 / 10"] e by blast
  have i: "issues (cache_of [demo_issue ''PROJ-1'' ''Old issue'', demo_issue ''PROJ-2'' ''Other issue''])
     = [demo_issue ''PROJ-1'' ''Old issue'', demo_issue ''PROJ-2'' ''Other issue'']"
    by (simp add: cache_of_def)
  have "map issue (filter (\<lambda>r. score r = 7 / 20)
        (fst (find_similar_issues demo_ratio
           (cache_of [demo_issue ''PROJ-1'' ''Old issue'', demo_issue ''PROJ-2'' ''Other issue''])
           ''x'' (3 / 10))))
     = filter (\<lambda>i. 3 / 10 \<le> combined_score demo_ratio ''x'' i
                 \<and> combined_score demo_ratio ''x'' i = 7 / 20)
         (issues (cache_of [demo_issue ''PROJ-1'' ''Old issue'', demo_issue ''PROJ-2'' ''Other issue'']))"
    using find_similar_sorted_stable [of demo_ratio
        "cache_of [demo_issue ''PROJ-1'' ''Old issue'', demo_issue ''PROJ-2'' ''Other issue'']"
        "''x''" "3 / 10"]
    by blast
  then show ?thesis using a by (simp add: i two_scores)
qed

lemma matched_fields_of_mem:
  "set (matched_fields_of ratio q thr i) \<subseteq> {''summary'', ''description'', ''labels''}
   \<and> (''summary'' \<in> set (matched_fields_of ratio q thr i) \<longleftrightarrow> thr \<le> summary_score ratio q i)
   \<and> (''description'' \<in> set (matched_fields_of ratio q thr i)
        \<longleftrightarrow> thr \<le> description_score ratio q i)
   \<and> (''labels'' \<in> set (matched_fields_of ratio q thr i) \<longleftrightarrow> thr \<le> labels_score ratio q i)"
  by (auto simp: matched_fields_of_def)

lemma tagged_scores:
  "summary_score demo_ratio ''q'' (tagged_issue ''s'' ''d'' ''l'') = 1 / 2"
  "description_score demo_ratio ''q'' (tagged_issue ''s'' ''d'' ''l'') = 1 / 2"
  "labels_score demo_ratio ''q'' (tagged_issue ''s'' ''d'' ''l'') = 1 / 2"
  "summary_score demo_ratio ''l'' (tagged_issue ''l'' ''d'' ''l'') = 1"
  "description_score demo_ratio ''l'' (tagged_issue ''l'' ''d'' ''l'') = 1 / 2"
  "labels_score demo_ratio ''l'' (tagged_issue ''l'' ''d'' ''l'') = 1"
  by (simp_all add: summary_score_def description_score_def labels_score_def
      demo_ratio_def tagged_issue_def demo_issue_def lower_def lower_char_def)

lemma find_tagged_low:
  "fst (find_similar_issues demo_ratio (cache_of [tagged_issue ''s'' ''d'' ''l'']) ''q'' (11 / 20))
     = [\<lparr>score = 3 / 5, issue = tagged_issue ''s'' ''d'' ''l'', matched_fields = []\<rparr>]"
  by (simp add: find_similar_issues_def cache_of_def sort_desc_def score_issue_def
      combined_score_def matched_fields_of_def tagged_scores)

lemma find_tagged_high:
  "fst (find_similar_issues demo_ratio (cache_of [tagged_issue ''l'' ''d'' ''l'']) ''l'' (7 / 10))
     = [\<lparr>score = 1, issue = tagged_issue ''l'' ''d'' ''l'',
         matched_fields = [''summary'', ''labels'']\<rparr>]"
  by (simp add: find_similar_issues_def cache_of_def sort_desc_def score_issue_def
      combined_score_def matched_fields_of_def tagged_scores)

text \<open>
  Claim C5. In every result, \<open>matched_fields\<close> holds exactly those of "summary",
  "description" and "labels" whose own score is at least the threshold of the cutoff. So
  there is an input where an issue passes on its combined score with no matched field,
  and one where "labels" is matched although its weighted share, 0.2 times its score,
  is below the threshold.
\<close>

theorem matched_fields_individual:
  "(\<forall>r \<in> set (fst (find_similar_issues ratio st q thr)).
      set (matched_fields r) \<subseteq> {''summary'', ''description'', ''labels''}
      \<and> (''summary'' \<in> set (matched_fields r) \<longleftrightarrow> thr \<le> summary_score ratio q (issue r))
      \<and> (''description'' \<in> set (matched_fields r)
           \<longleftrightarrow> thr \<le> description_score ratio q (issue r))
      \<and> (''labels'' \<in> set (matched_fields r) \<longleftrightarrow> thr \<le> labels_score ratio q (issue r)))
   \<and> (\<exists>ratio' st' q' thr' r'. (\<forall>a b. ratio' a b \<le> 100)
         \<and> r' \<in> set (fst (find_similar_issues ratio' st' q' thr'))
         \<and> matched_fields r' = [])
   \<and> (\<exists>ratio' st' q' thr' r'. (\<forall>a b. ratio' a b \<le> 100)
         \<and> r' \<in> set (fst (find_similar_issues ratio' st' q' thr'))
         \<and> ''labels'' \<in> set (matched_fields r')
         \<and> 0.2 * labels_score ratio' q' (issue r') < thr')"
proof -
  have a: "\<forall>r \<in> set (fst (find_similar_issues ratio st q thr)).
      set (matched_fields r) \<subseteq> {''summary'', ''description'', ''labels''}
      \<and> (''summary'' \<in> set (matched_fields r) \<longleftrightarrow> thr \<le> summary_score ratio q (issue r))
      \<and> (''description'' \<in> set (matched_fields r)
           \<longleftrightarrow> thr \<le> description_score ratio q (issue r))
      \<and> (''labels'' \<in> set (matched_fields r) \<longleftrightarrow> thr \<le> labels_score ratio q (issue r))"
  proof
    fix r assume "r \<in> set (fst (find_similar_issues ratio st q thr))"
    then obtain i where "r = \<lparr>score = combined_score ratio q i, issue = i,
            matched_fields = matched_fields_of ratio q thr i\<rparr>"
      by (auto simp: set_find_similar_issues score_issue_Some)
    then have "issue r = i" "matched_fields r = matched_fields_of ratio q thr i" by simp_all
    then show "set (matched_fields r) \<subseteq> {''summary'', ''description'', ''labels''}
      \<and> (''summary'' \<in> set (matched_fields r) \<longleftrightarrow> thr \<le> summary_score ratio q (issue r))
      \<and> (''description'' \<in> set (matched_fields r)
           \<longleftrightarrow> thr \<le> description_score ratio q (issue r))
      \<and> (''labels'' \<in> set (matched_fields r) \<longleftrightarrow> thr \<le> labels_score ratio q (issue r))"
      using matched_fields_of_mem [of ratio q thr i] by simp
  qed
  have b: "\<exists>ratio' st' q' thr' r'. (\<forall>a b. ratio' a b \<le> 100)
         \<and> r' \<in> set (fst (find_similar_issues ratio' st' q' thr'))
         \<and> matched_fields r' = []"
    apply (rule exI [of _ demo_ratio])
    apply (rule exI [of _ "cache_of [tagged_issue ''s'' ''d'' ''l'']"])
    apply (rule exI [of _ "''q''"])
    apply (rule exI [of _ "11 / 20"])
    apply (rule exI [of _ "\<lparr>score = 3 / 5, issue = tagged_issue ''s'' ''d'' ''l'', matched_fields = []\<rparr>"])
    apply (simp add: find_tagged_low demo_ratio_le)
    done
  have c: "\<exists>ratio' st' q' thr' r'. (\<forall>a b. ratio' a b \<le> 100)
         \<and> r' \<in> set (fst (find_similar_issues ratio' st' q' thr'))
         \<and> ''labels'' \<in> set (matched_fields r')
         \<and> 0.2 * labels_score ratio' q' (issue r') < thr'"
    apply (rule exI [of _ demo_ratio])
    apply (rule exI [of _ "cache_of [tagged_issue ''l'' ''d'' ''l'']"])
    apply (rule exI [of _ "''l''"])
    apply (rule exI [of _ "7 / 10"])
    apply (rule exI [of _ "\<lparr>score = 1, issue = tagged_issue ''l'' ''d'' ''l'',
         matched_fields = [''summary'', ''labels'']\<rparr>"])
    apply (simp add: find_tagged_high demo_ratio_le tagged_scores)
    done
  show ?thesis using a b c by blast
qed

theorem matched_fields_individual_witness:
  "\<lparr>score = 3 / 5, issue = tagged_issue ''s'' ''d'' ''l'', matched_fields = []\<rparr>
     \<in> set (fst (find_similar_issues demo_ratio (cache_of [tagged_issue ''s'' ''d'' ''l''])
                   ''q'' (11 / 20)))
   \<and> \<not> 11 / 20 \<le> summary_score demo_ratio ''q'' (tagged_issue ''s'' ''d'' ''l'')
   \<and> \<not> 11 / 20 \<le> description_score demo_ratio ''q'' (tagged_issue ''s'' ''d'' ''l'')
   \<and> \<not> 11 / 20 \<le> labels_score demo_ratio ''q'' (tagged_issue ''s'' ''d'' ''l'')"
proof -
  let ?r = "\<lparr>score = 3 / 5, issue = tagged_issue ''s'' ''d'' ''l'', matched_fields = []\<rparr>"
  have m: "?r \<in> set (fst (find_similar_issues demo_ratio (cache_of [tagged_issue ''s'' ''d'' ''l''])
                   ''q'' (11 / 20)))"
    by (simp add: find_tagged_low)
  from matched_fields_individual [of demo_ratio "cache_of [tagged_issue ''s'' ''d'' ''l'']"
      "''q''" "11 / 20"] m
  have "(''summary'' \<in> set (matched_fields ?r) \<longleftrightarrow> 11 / 20 \<le> summary_score demo_ratio ''q'' (issue ?r))
      \<and> (''description'' \<in> set (matched_fields ?r)
           \<longleftrightarrow> 11 / 20 \<le> description_score demo_ratio ''q'' (issue ?r))
      \<and> (''labels'' \<in> set (matched_fields ?r) \<longleftrightarrow> 11 / 20 \<le> labels_score demo_ratio ''q'' (issue ?r))"
    by blast
  then show ?thesis using m by simp
qed

section \<open>The issue cache\<close>

text \<open>
  Claim C7. When \<open>create_issue\<close> succeeds, the cached list afterwards is the new issue
  followed by the list as it was, every earlier item in place and in order, and
  \<open>last_sync\<close> is what it was.
\<close>

theorem create_issue_prepends:
  "create_issue env st request = (Inr new_issue, st') \<Longrightarrow>
     issues st' = new_issue # issues st \<and> last_sync st' = last_sync st"
  by (auto simp: create_issue_def record_call_def Let_def split: sum.splits)

theorem create_issue_prepends_witness:
  "fst (create_issue demo_env demo_client demo_request) = Inr (demo_issue ''PROJ-2'' ''New issue'')
   \<and> issues (snd (create_issue demo_env demo_client demo_request))
       = [demo_issue ''PROJ-2'' ''New issue'', demo_issue ''PROJ-1'' ''Old issue'']
   \<and> last_sync (snd (create_issue demo_env demo_client demo_request)) = Some 999999999"
proof -
  note t = create_issue_prepends [OF create_issue_demo]
  have "issues demo_client = [demo_issue ''PROJ-1'' ''Old issue'']"
    and "last_sync demo_client = Some 999999999"
    by (simp_all add: demo_client_def)
  with t show ?thesis by (simp add: create_issue_demo)
qed

text \<open>
  Claim C10. A sync that raises leaves the cached issues and \<open>last_sync\<close> as they were;
  a failing fetch makes the sync raise that error; and a sync that returns has replaced
  the issues by the transformed fetch and set \<open>last_sync\<close> to the time read after it.
\<close>

theorem sync_issues_atomic:
  "(fst (sync_issues env cfg st) = Inl e \<longrightarrow>
      issues (snd (sync_issues env cfg st)) = issues st
      \<and> last_sync (snd (sync_issues env cfg st)) = last_sync st)
   \<and> (jira_search_issues env (calls st) (build_jql cfg) = Inl e \<longrightarrow>
        fst (sync_issues env cfg st) = Inl e)
   \<and> (fst (sync_issues env cfg st) = Inr () \<longrightarrow>
        (\<exists>raws is. jira_search_issues env (calls st) (build_jql cfg) = Inr raws
           \<and> transform_all (transform_jira_issue env) raws = Inr is
           \<and> issues (snd (sync_issues env cfg st)) = is
           \<and> last_sync (snd (sync_issues env cfg st))
               = Some (now env (calls st @ [SearchIssues (build_jql cfg)]))))"
  by (auto simp: sync_issues_def record_call_def Let_def split: sum.splits)

theorem sync_issues_atomic_witness:
  "jira_search_issues down_env (calls demo_client) (build_jql demo_cfg)
     = Inl (Exception ''jira down'')
   \<and> fst (sync_issues down_env demo_cfg demo_client) = Inl (Exception ''jira down'')
   \<and> issues (snd (sync_issues down_env demo_cfg demo_client)) = issues demo_client
   \<and> last_sync (snd (sync_issues down_env demo_cfg demo_client)) = last_sync demo_client
   \<and> fst (sync_issues demo_env demo_cfg demo_client) = Inr ()
   \<and> last_sync (snd (sync_issues demo_env demo_cfg demo_client)) = Some 1000000000"
proof -
  have h: "jira_search_issues down_env (calls demo_client) (build_jql demo_cfg)
             = Inl (Exception ''jira down'')"
    by (simp add: down_env_def)
  have ok: "fst (sync_issues demo_env demo_cfg demo_client) = Inr ()"
    by (simp add: sync_issues_def Let_def demo_env_def)
  have n: "now demo_env (calls demo_client @ [SearchIssues (build_jql demo_cfg)]) = 1000000000"
    by (simp add: demo_env_def)
  from sync_issues_atomic [of demo_env demo_cfg demo_client] ok
  have "last_sync (snd (sync_issues demo_env demo_cfg demo_client))
          = Some (now demo_env (calls demo_client @ [SearchIssues (build_jql demo_cfg)]))"
    by blast
  with n have t: "last_sync (snd (sync_issues demo_env demo_cfg demo_client)) = Some 1000000000"
    by simp
  show ?thesis
    using h ok t
      sync_issues_atomic [of down_env demo_cfg demo_client "Exception ''jira down''"]
    by blast
qed

section \<open>Comment processing\<close>

text \<open>
  Claim C2, as the specification states it, at a comment that asks for nothing: the
  classifier returns false, and the outcome is not the skipped result with the reason
  "no creation request found".
\<close>

theorem skipped_reason_counterexample:
  "\<not> is_create_jira_comment ''looks good to me'' \<and>
   fst (process_pr_comment_for_jira demo_env demo_cfg demo_client 7 ''looks good to me'' 0.7)
     \<noteq> Inr \<lparr>action = ''skipped'', res_issue = None, similarity = None,
              reason = Some ''no creation request found''\<rparr>"
  using not_trigger by (simp add: process_pr_comment_for_jira_def process_try_def)

text \<open>
  Claim C2, amended. For every comment the classifier rejects, the webhook server returns
  the skipped result with the reason "No Jira creation request found", the MCP server
  returns the text "Comment does not contain a request to create a Jira issue", and both
  leave the state as it was: the trace of external calls, the cached issues and the sync
  time are unchanged, so no pull request is fetched, nothing is synced, created or posted.
\<close>

theorem no_request_no_calls:
  "\<not> is_create_jira_comment comment \<Longrightarrow>
     process_pr_comment_for_jira env cfg st pr_number comment threshold
       = (Inr \<lparr>action = ''skipped'', res_issue = None, similarity = None,
               reason = Some ''No Jira creation request found''\<rparr>, st)
     \<and> process_pr_comment_for_jira_impl env cfg st pr_number comment threshold
       = (Inr ''Comment does not contain a request to create a Jira issue'', st)"
  by (simp add: process_pr_comment_for_jira_def process_try_def
      process_pr_comment_for_jira_impl_def)

theorem no_request_no_calls_witness:
  "\<not> is_create_jira_comment ''looks good to me'' \<and>
   process_pr_comment_for_jira demo_env demo_cfg demo_client 7 ''looks good to me'' 0.7
       = (Inr \<lparr>action = ''skipped'', res_issue = None, similarity = None,
               reason = Some ''No Jira creation request found''\<rparr>, demo_client)
   \<and> calls (snd (process_pr_comment_for_jira_impl demo_env demo_cfg demo_client 7
                    ''looks good to me'' 0.7)) = []"
  using no_request_no_calls [OF not_trigger, of demo_env demo_cfg demo_client 7 "0.7"]
    not_trigger
  by (simp add: demo_client_def)

text \<open>
  Claim C8. Whenever the \<open>try\<close> block of \<open>_process_pr_comment_for_jira\<close> raises an error
  (which it can only do after the creation-request check), the handler calls
  \<open>add_comment\<close> with the error comment on the same pull request: the trace grows by the
  request for the issue and, if that is answered, by the posting of the comment. Whether
  or not that attempt raises, the call ends by raising the original error, and the cache
  is what the \<open>try\<close> block left.
\<close>

theorem error_comment_then_reraise:
  "process_try env cfg st pr_number comment threshold = (Inl error, st1) \<Longrightarrow>
     is_create_jira_comment comment
     \<and> fst (process_pr_comment_for_jira env cfg st pr_number comment threshold) = Inl error
     \<and> snd (process_pr_comment_for_jira env cfg st pr_number comment threshold)
         = snd (add_comment env st1 pr_number (error_comment error))
     \<and> calls (snd (process_pr_comment_for_jira env cfg st pr_number comment threshold))
         = calls st1 @ GetIssue pr_number
             # (case repo_get_issue env (calls st1) pr_number of
                  Inl e \<Rightarrow> []
                | Inr u \<Rightarrow> [CreateComment pr_number (error_comment error)])
     \<and> issues (snd (process_pr_comment_for_jira env cfg st pr_number comment threshold))
         = issues st1
     \<and> last_sync (snd (process_pr_comment_for_jira env cfg st pr_number comment threshold))
         = last_sync st1"
proof -
  assume h: "process_try env cfg st pr_number comment threshold = (Inl error, st1)"
  have trig: "is_create_jira_comment comment"
    using h by (auto simp: process_try_def split: if_splits)
  have fst_eq:
    "fst (process_pr_comment_for_jira env cfg st pr_number comment threshold) = Inl error"
    using h by (simp add: process_pr_comment_for_jira_def split: prod.splits sum.splits)
  have snd_eq:
    "snd (process_pr_comment_for_jira env cfg st pr_number comment threshold)
       = snd (add_comment env st1 pr_number (error_comment error))"
    using h by (simp add: process_pr_comment_for_jira_def split: prod.splits sum.splits)
  have tr:
    "calls (snd (add_comment env st1 pr_number (error_comment error)))
       = calls st1 @ GetIssue pr_number
           # (case repo_get_issue env (calls st1) pr_number of
                Inl e \<Rightarrow> []
              | Inr u \<Rightarrow> [CreateComment pr_number (error_comment error)])"
    by (simp add: add_comment_def record_call_def Let_def split: sum.splits)
  have fr:
    "issues (snd (add_comment env st1 pr_number (error_comment error))) = issues st1
     \<and> last_sync (snd (add_comment env st1 pr_number (error_comment error))) = last_sync st1"
    by (simp add: add_comment_def record_call_def Let_def split: sum.splits)
  show ?thesis using trig fst_eq snd_eq tr fr by simp
qed

theorem error_comment_then_reraise_witness:
  "fst (process_pr_comment_for_jira down_env demo_cfg demo_client 7 ''create jira'' 0.7)
     = Inl (Exception ''Pull request #7 not found'')
   \<and> calls (snd (process_pr_comment_for_jira down_env demo_cfg demo_client 7
                    ''create jira'' 0.7))
     = [GetPull 7, GetIssue 7]"
proof -
  have g: "repo_get_issue down_env [GetPull 7] 7 = Inl (Exception ''github down'')"
    by (simp add: down_env_def)
  note t = error_comment_then_reraise [OF process_try_down]
  from t have a:
    "fst (process_pr_comment_for_jira down_env demo_cfg demo_client 7 ''create jira'' 0.7)
       = Inl (Exception ''Pull request #7 not found'')"
    by blast
  from t have b:
    "calls (snd (process_pr_comment_for_jira down_env demo_cfg demo_client 7
                   ''create jira'' 0.7))
       = calls (demo_client\<lparr>calls := [GetPull 7]\<rparr>) @ GetIssue 7
           # (case repo_get_issue down_env (calls (demo_client\<lparr>calls := [GetPull 7]\<rparr>)) 7 of
                Inl e \<Rightarrow> []
              | Inr u \<Rightarrow>
                  [CreateComment 7 (error_comment (Exception ''Pull request #7 not found''))])"
    by blast
  show ?thesis using a b g by simp
qed

section \<open>Extraction of the issue details\<close>

text \<open>Patterns and fields: where a pattern cannot match, and what it captures.\<close>

lemma literal_ci_eq:
  "literal_ci kw m s = (if starts_ci kw s then m (drop (length kw) s) else None)"
  by (simp add: literal_ci_def starts_ci_def)

lemma plus_then_no_sep:
  "(case s of [] \<Rightarrow> True | c # cs \<Rightarrow> \<not> is_sep c) \<Longrightarrow> plus_then is_sep m s = None"
  by (cases s) (simp_all add: plus_then_def)

lemma field_pattern_None:
  "\<not> field_start kw s \<Longrightarrow> literal_ci kw (plus_then is_sep m) s = None"
  by (auto simp: literal_ci_eq field_start_def plus_then_no_sep split: list.splits)

lemma field_start_Nil: "\<not> field_start kw []"
  by (simp add: field_start_def)

lemma re_search_no_field:
  "\<not> has_field_start kw s \<Longrightarrow> re_search (literal_ci kw (plus_then is_sep m)) s = None"
  by (induction s) (simp_all add: field_pattern_None field_start_Nil)

lemma drop_Cons_split:
  "drop n s = x # xs \<Longrightarrow> take (Suc n) s = take n s @ [x] \<and> drop (Suc n) s = xs"
proof (induction n arbitrary: s)
  case 0
  then show ?case by simp
next
  case (Suc n)
  then show ?case by (cases s) simp_all
qed

lemma optional_field_None:
  assumes a: "\<not> field_start kw s"
    and b: "\<not> field_start (kw @ [c]) s"
    and c: "\<forall>x. lower_char x = c \<longrightarrow> \<not> is_sep x"
  shows "literal_ci kw (optional_ci c (plus_then is_sep m)) s = None"
proof (cases "starts_ci kw s")
  case False
  then show ?thesis by (simp add: literal_ci_eq)
next
  case True
  let ?r = "drop (length kw) s"
  have r1: "(case ?r of [] \<Rightarrow> True | y # ys \<Rightarrow> \<not> is_sep y)"
    using a True by (auto simp: field_start_def split: list.splits)
  have m1: "plus_then is_sep m ?r = None"
    using r1 by (rule plus_then_no_sep)
  have "optional_ci c (plus_then is_sep m) ?r = None"
  proof (cases ?r)
    case Nil
    then show ?thesis using m1 by (simp add: optional_ci_def)
  next
    case (Cons x xs)
    show ?thesis
    proof (cases "lower_char x = c")
      case False
      then show ?thesis using m1 Cons by (simp add: optional_ci_def)
    next
      case s: True
      from drop_Cons_split [OF Cons]
      have t: "take (Suc (length kw)) s = take (length kw) s @ [x]"
        and d: "drop (Suc (length kw)) s = xs" by simp_all
      have st: "starts_ci (kw @ [c]) s"
        using True s t by (simp add: starts_ci_def)
      have "(case xs of [] \<Rightarrow> True | y # ys \<Rightarrow> \<not> is_sep y)"
        using b st d by (auto simp: field_start_def split: list.splits)
      then have "plus_then is_sep m xs = None" by (rule plus_then_no_sep)
      then show ?thesis using m1 Cons s by (simp add: optional_ci_def)
    qed
  qed
  then show ?thesis using True by (simp add: literal_ci_eq)
qed

lemma lower_s_not_sep: "\<forall>x. lower_char x = CHR ''s'' \<longrightarrow> \<not> is_sep x"
  by (auto simp: is_sep_def is_space_def lower_char_def)

lemma labels_pattern_None:
  "\<not> field_start ''label'' s \<Longrightarrow> \<not> field_start ''labels'' s \<Longrightarrow> labels_pattern s = None"
  using optional_field_None [of "''label''" s "CHR ''s''" rest_of_line] lower_s_not_sep
  by (simp add: labels_pattern_def)

lemma re_search_no_labels:
  "\<not> has_field_start ''label'' s \<Longrightarrow> \<not> has_field_start ''labels'' s
     \<Longrightarrow> re_search labels_pattern s = None"
proof (induction s)
  case Nil
  then show ?case by (simp add: labels_pattern_None field_start_Nil)
next
  case (Cons c cs)
  then show ?case by (simp add: labels_pattern_None)
qed

lemma no_fields_no_match:
  "\<not> has_field_start ''summary'' c \<Longrightarrow> summary_match c = None"
  "\<not> has_field_start ''type'' c \<Longrightarrow> type_match c = None"
  "\<not> has_field_start ''label'' c \<Longrightarrow> \<not> has_field_start ''labels'' c \<Longrightarrow> labels_match c = None"
  by (simp_all add: summary_match_def summary_pattern_def type_match_def type_pattern_def
      labels_match_def re_search_no_field re_search_no_labels)

lemma takeWhile_run:
  "list_all P xs \<Longrightarrow> (case t of [] \<Rightarrow> True | y # ys \<Rightarrow> \<not> P y) \<Longrightarrow> takeWhile P (xs @ t) = xs"
  by (induction xs) (auto split: list.splits)

lemma give_back_first:
  "m (drop (Suc k) s) = Some g \<Longrightarrow> give_back m (Suc k) s = Some g"
  by simp

lemma plus_then_value:
  assumes "seps \<noteq> []" "list_all is_sep seps"
    and "(case t of [] \<Rightarrow> True | y # ys \<Rightarrow> \<not> is_sep y)"
    and "m t = Some g"
  shows "plus_then is_sep m (seps @ t) = Some g"
proof -
  have tw: "takeWhile is_sep (seps @ t) = seps"
    using assms(2,3) by (rule takeWhile_run)
  obtain k where k: "length seps = Suc k" using assms(1) by (cases seps) auto
  have "m (drop (Suc k) (seps @ t)) = Some g" using k assms(4) by simp
  then show ?thesis using k tw by (simp add: plus_then_def)
qed

lemma rest_of_line_value:
  "line_value v rest \<Longrightarrow> rest_of_line (v @ rest) = Some v"
proof -
  assume a: "line_value v rest"
  have "takeWhile (\<lambda>c. c \<noteq> CHR 0x0A \<and> c \<noteq> CHR 0x0D) (v @ rest) = v"
    using a by (intro takeWhile_run) (auto simp: line_value_def split: list.splits)
  then show ?thesis using a by (simp add: rest_of_line_def line_value_def)
qed

lemma starts_ci_keyword:
  "map lower_char k = kw \<Longrightarrow> starts_ci kw (k @ t) \<and> drop (length kw) (k @ t) = t"
  by (auto simp: starts_ci_def)

lemma field_value_here:
  assumes "map lower_char k = kw" "seps \<noteq> []" "list_all is_sep seps"
    and "(case t of [] \<Rightarrow> True | y # ys \<Rightarrow> \<not> is_sep y)" "m t = Some g"
  shows "literal_ci kw (plus_then is_sep m) (k @ seps @ t) = Some g"
  using starts_ci_keyword [OF assms(1), of "seps @ t"] plus_then_value [of seps t m g] assms(2-5)
  by (simp add: literal_ci_eq)

lemma first_field_found:
  assumes "map lower_char k = kw" "seps \<noteq> []" "list_all is_sep seps"
    and "(case t of [] \<Rightarrow> True | y # ys \<Rightarrow> \<not> is_sep y)" "m t = Some g"
    and "\<forall>i < length pre. \<not> field_start kw (drop i (pre @ k @ seps @ t))"
  shows "re_search (literal_ci kw (plus_then is_sep m)) (pre @ k @ seps @ t) = Some g"
proof -
  have "\<forall>i < length pre. literal_ci kw (plus_then is_sep m) (drop i (pre @ k @ seps @ t)) = None"
    using assms(6) by (simp add: field_pattern_None)
  then have "re_search (literal_ci kw (plus_then is_sep m)) (pre @ k @ seps @ t)
     = re_search (literal_ci kw (plus_then is_sep m)) (k @ seps @ t)"
    by (rule re_search_skip)
  moreover have "literal_ci kw (plus_then is_sep m) (k @ seps @ t) = Some g"
    using field_value_here [of k kw seps t m g] assms(1-5) by blast
  ultimately show ?thesis
    using re_search_here [of "literal_ci kw (plus_then is_sep m)" "k @ seps @ t" g] by simp
qed


lemma optional_field_here:
  assumes "map lower_char k = kw \<or> map lower_char k = kw @ [c]"
    and "seps \<noteq> []" "list_all is_sep seps"
    and "\<forall>x. lower_char x = c \<longrightarrow> \<not> is_sep x"
    and "(case t of [] \<Rightarrow> True | y # ys \<Rightarrow> \<not> is_sep y)" "m t = Some g"
  shows "literal_ci kw (optional_ci c (plus_then is_sep m)) (k @ seps @ t) = Some g"
proof -
  have pv: "plus_then is_sep m (seps @ t) = Some g"
    using plus_then_value [of seps t m g] assms(2,3,5,6) by blast
  from assms(1) show ?thesis
  proof
    assume a: "map lower_char k = kw"
    obtain x xs where x: "seps = x # xs" using assms(2) by (cases seps) auto
    then have "is_sep x" using assms(3) by simp
    then have "lower_char x \<noteq> c" using assms(4) by blast
    then have "optional_ci c (plus_then is_sep m) (seps @ t) = Some g"
      using pv x by (simp add: optional_ci_def)
    then show ?thesis
      using starts_ci_keyword [OF a, of "seps @ t"] by (simp add: literal_ci_eq)
  next
    assume a: "map lower_char k = kw @ [c]"
    then obtain k5 x where k: "k = k5 @ [x]" "map lower_char k5 = kw" "lower_char x = c"
      by (cases k rule: rev_cases) auto
    have "optional_ci c (plus_then is_sep m) (x # seps @ t) = Some g"
      using pv k(3) by (simp add: optional_ci_def)
    then show ?thesis
      using starts_ci_keyword [OF k(2), of "x # seps @ t"] k(1) by (simp add: literal_ci_eq)
  qed
qed

lemma first_labels_found:
  assumes "map lower_char k = ''label'' \<or> map lower_char k = ''labels''"
    and "seps \<noteq> []" "list_all is_sep seps" "line_value v rest"
    and "\<forall>i < length pre. \<not> field_start ''label'' (drop i (pre @ k @ seps @ v @ rest))
           \<and> \<not> field_start ''labels'' (drop i (pre @ k @ seps @ v @ rest))"
  shows "labels_match (pre @ k @ seps @ v @ rest) = Some v"
proof -
  have "\<forall>i < length pre. labels_pattern (drop i (pre @ k @ seps @ v @ rest)) = None"
    using assms(5) by (simp add: labels_pattern_None)
  then have sk: "re_search labels_pattern (pre @ k @ seps @ v @ rest)
     = re_search labels_pattern (k @ seps @ v @ rest)"
    by (rule re_search_skip)
  have hd: "(case v @ rest of [] \<Rightarrow> True | y # ys \<Rightarrow> \<not> is_sep y)"
    using assms(4) by (cases v) (simp_all add: line_value_def)
  have "labels_pattern (k @ seps @ v @ rest) = Some v"
    using optional_field_here [of k "''label''" "CHR ''s''" seps "v @ rest" rest_of_line v]
      assms(1-3) lower_s_not_sep hd rest_of_line_value [OF assms(4)]
    by (simp add: labels_pattern_def)
  then show ?thesis
    using sk re_search_here [of labels_pattern "k @ seps @ v @ rest" v]
    by (simp add: labels_match_def)
qed

lemma first_summary_found:
  assumes "map lower_char k = ''summary''"
    and "seps \<noteq> []" "list_all is_sep seps" "line_value v rest"
    and "\<forall>i < length pre. \<not> field_start ''summary'' (drop i (pre @ k @ seps @ v @ rest))"
  shows "summary_match (pre @ k @ seps @ v @ rest) = Some v"
proof -
  have hd: "(case v @ rest of [] \<Rightarrow> True | y # ys \<Rightarrow> \<not> is_sep y)"
    using assms(4) by (cases v) (simp_all add: line_value_def)
  show ?thesis
    using first_field_found [of k "''summary''" seps "v @ rest" rest_of_line v pre]
      assms(1-3,5) hd rest_of_line_value [OF assms(4)]
    by (simp add: summary_match_def summary_pattern_def)
qed

lemma non_alpha_lower: "\<not> is_alpha a \<Longrightarrow> lower_char a = a"
  by (simp add: is_alpha_def lower_char_def)

lemma alpha_not_sep: "is_alpha a \<Longrightarrow> \<not> is_sep a"
  by (auto simp: is_alpha_def is_sep_def is_space_def)

lemma lower_letter_alpha:
  "lower_char a = x \<Longrightarrow> is_alpha x \<Longrightarrow> is_alpha a"
  by (metis non_alpha_lower)

lemma alpha_letters:
  "is_alpha (CHR ''b'')" "is_alpha (CHR ''u'')" "is_alpha (CHR ''g'')" "is_alpha (CHR ''t'')"
  "is_alpha (CHR ''a'')" "is_alpha (CHR ''s'')" "is_alpha (CHR ''k'')" "is_alpha (CHR ''o'')"
  "is_alpha (CHR ''r'')" "is_alpha (CHR ''y'')" "is_alpha (CHR ''e'')" "is_alpha (CHR ''p'')"
  "is_alpha (CHR ''i'')" "is_alpha (CHR ''c'')"
  by (simp_all add: is_alpha_def)

lemma upper_first:
  "lower_char a = CHR ''b'' \<Longrightarrow> upper_char a = CHR ''B''"
  "lower_char a = CHR ''t'' \<Longrightarrow> upper_char a = CHR ''T''"
  "lower_char a = CHR ''s'' \<Longrightarrow> upper_char a = CHR ''S''"
  "lower_char a = CHR ''e'' \<Longrightarrow> upper_char a = CHR ''E''"
  by (auto simp: lower_char_def upper_char_def split: if_splits)

lemma type_bug:
  assumes "map lower_char v = ''bug''"
  shows "one_of_ci [''bug'', ''task'', ''story'', ''epic''] (v @ rest) = Some v
     \<and> v \<noteq> [] \<and> \<not> is_sep (hd v) \<and> title_case v = ''Bug''"
proof -
  from assms obtain a b c where v: "v = [a, b, c]"
    and l: "lower_char a = CHR ''b''" "lower_char b = CHR ''u''" "lower_char c = CHR ''g''"
    by (auto simp: map_eq_Cons_conv)
  have al: "is_alpha a" "is_alpha b" "is_alpha c"
    using l by (simp_all add: lower_letter_alpha alpha_letters)
  show ?thesis
    using l al alpha_not_sep [OF al(1)] by (simp add: v title_case_def upper_first)
qed

lemma type_task:
  assumes "map lower_char v = ''task''"
  shows "one_of_ci [''bug'', ''task'', ''story'', ''epic''] (v @ rest) = Some v
     \<and> v \<noteq> [] \<and> \<not> is_sep (hd v) \<and> title_case v = ''Task''"
proof -
  from assms obtain a b c d where v: "v = [a, b, c, d]"
    and l: "lower_char a = CHR ''t''" "lower_char b = CHR ''a''" "lower_char c = CHR ''s''"
      "lower_char d = CHR ''k''"
    by (auto simp: map_eq_Cons_conv)
  have al: "is_alpha a" "is_alpha b" "is_alpha c" "is_alpha d"
    using l by (simp_all add: lower_letter_alpha alpha_letters)
  show ?thesis
    using l al alpha_not_sep [OF al(1)] by (simp add: v title_case_def upper_first)
qed

lemma type_story:
  assumes "map lower_char v = ''story''"
  shows "one_of_ci [''bug'', ''task'', ''story'', ''epic''] (v @ rest) = Some v
     \<and> v \<noteq> [] \<and> \<not> is_sep (hd v) \<and> title_case v = ''Story''"
proof -
  from assms obtain a b c d e where v: "v = [a, b, c, d, e]"
    and l: "lower_char a = CHR ''s''" "lower_char b = CHR ''t''" "lower_char c = CHR ''o''"
      "lower_char d = CHR ''r''" "lower_char e = CHR ''y''"
    by (auto simp: map_eq_Cons_conv)
  have al: "is_alpha a" "is_alpha b" "is_alpha c" "is_alpha d" "is_alpha e"
    using l by (simp_all add: lower_letter_alpha alpha_letters)
  show ?thesis
    using l al alpha_not_sep [OF al(1)] by (simp add: v title_case_def upper_first)
qed

lemma type_epic:
  assumes "map lower_char v = ''epic''"
  shows "one_of_ci [''bug'', ''task'', ''story'', ''epic''] (v @ rest) = Some v
     \<and> v \<noteq> [] \<and> \<not> is_sep (hd v) \<and> title_case v = ''Epic''"
proof -
  from assms obtain a b c d where v: "v = [a, b, c, d]"
    and l: "lower_char a = CHR ''e''" "lower_char b = CHR ''p''" "lower_char c = CHR ''i''"
      "lower_char d = CHR ''c''"
    by (auto simp: map_eq_Cons_conv)
  have al: "is_alpha a" "is_alpha b" "is_alpha c" "is_alpha d"
    using l by (simp_all add: lower_letter_alpha alpha_letters)
  show ?thesis
    using l al alpha_not_sep [OF al(1)] by (simp add: v title_case_def upper_first)
qed

lemma type_value:
  assumes "map lower_char v \<in> {''bug'', ''task'', ''story'', ''epic''}"
  shows "one_of_ci [''bug'', ''task'', ''story'', ''epic''] (v @ rest) = Some v
     \<and> v \<noteq> [] \<and> \<not> is_sep (hd v)
     \<and> title_case v \<in> {''Bug'', ''Task'', ''Story'', ''Epic''}"
proof -
  from assms consider "map lower_char v = ''bug''" | "map lower_char v = ''task''"
    | "map lower_char v = ''story''" | "map lower_char v = ''epic''"
    by auto
  then show ?thesis
  proof cases
    case 1
    from type_bug [OF 1, of rest] show ?thesis by simp
  next
    case 2
    from type_task [OF 2, of rest] show ?thesis by simp
  next
    case 3
    from type_story [OF 3, of rest] show ?thesis by simp
  next
    case 4
    from type_epic [OF 4, of rest] show ?thesis by simp
  qed
qed

lemma first_type_found:
  assumes "map lower_char k = ''type''"
    and "seps \<noteq> []" "list_all is_sep seps"
    and "map lower_char v \<in> {''bug'', ''task'', ''story'', ''epic''}"
    and "\<forall>i < length pre. \<not> field_start ''type'' (drop i (pre @ k @ seps @ v @ rest))"
  shows "type_match (pre @ k @ seps @ v @ rest) = Some v"
proof -
  note tv = type_value [OF assms(4), of rest]
  have hd: "(case v @ rest of [] \<Rightarrow> True | y # ys \<Rightarrow> \<not> is_sep y)"
    using tv by (cases v) simp_all
  show ?thesis
    using first_field_found [of k "''type''" seps "v @ rest"
        "one_of_ci [''bug'', ''task'', ''story'', ''epic'']" v pre]
      assms(1-3,5) hd tv
    by (simp add: type_match_def type_pattern_def)
qed

text \<open>
  Claim C6, as the specification states it, at two comments. The first carries no
  "summary:", "type:", "label:" or "labels:", yet its labels are not just "github-pr": the
  word "label" followed by a space is taken as the field. The second carries the three
  fields, each on a line of its own, with the type Bug, yet its type is Story: the pattern
  matches first inside "prototype story".
\<close>

theorem structured_fields_counterexample:
  "\<not> occurs_ci ''summary:'' ''create jira for the label printer''
   \<and> \<not> occurs_ci ''type:'' ''create jira for the label printer''
   \<and> \<not> occurs_ci ''label:'' ''create jira for the label printer''
   \<and> \<not> occurs_ci ''labels:'' ''create jira for the label printer''
   \<and> det_labels (extract_jira_details demo_cfg ''create jira for the label printer''
         ''T'' None None) = [''github-pr'', ''printer'']
   \<and> det_issue_type (extract_jira_details demo_cfg
         (''prototype story'' @ newline @ ''Summary: Fix login'' @ newline @ ''Type: Bug''
          @ newline @ ''Labels: frontend'') ''T'' None None) = ''Story''"
  by (simp add: extract_jira_details_def Let_def regex_defs starts_ci_def newline_def
      strip_def title_case_def is_alpha_def upper_char_def)

text \<open>
  Claim C6, amended. In a comment where no keyword (summary, type, label, labels) is
  followed by a colon or a whitespace character, the summary is "[GitHub PR] " followed by
  the title, the type is "Task" and the labels are exactly ["github-pr"]. Where the first
  such keyword \<open>summary\<close> of the comment is followed by colons or whitespace and then a value
  running to the end of its line, the summary is that value stripped; where the first such
  \<open>type\<close> is followed by one of bug, task, story, epic in any case, the type is that word
  title-cased, one of Bug, Task, Story, Epic; where the first such \<open>label\<close> or \<open>labels\<close> is
  followed by a value running to the end of its line, the labels are "github-pr" followed
  by the stripped pieces of that value split at commas. The two test vectors of the
  specification hold.
\<close>

theorem extract_jira_details_first_fields:
  "(\<not> has_field_start ''summary'' c \<and> \<not> has_field_start ''type'' c
      \<and> \<not> has_field_start ''label'' c \<and> \<not> has_field_start ''labels'' c
      \<longrightarrow> det_summary (extract_jira_details cfg c t b n) = ''[GitHub PR] '' @ t
        \<and> det_issue_type (extract_jira_details cfg c t b n) = ''Task''
        \<and> det_labels (extract_jira_details cfg c t b n) = [''github-pr''])
   \<and> (c = ps @ ks @ ss @ vs @ rs \<and> map lower_char ks = ''summary''
        \<and> ss \<noteq> [] \<and> list_all is_sep ss \<and> line_value vs rs
        \<and> (\<forall>i < length ps. \<not> field_start ''summary'' (drop i c))
      \<longrightarrow> det_summary (extract_jira_details cfg c t b n) = strip vs)
   \<and> (c = pt @ kt @ st @ vt @ rt \<and> map lower_char kt = ''type''
        \<and> st \<noteq> [] \<and> list_all is_sep st
        \<and> map lower_char vt \<in> {''bug'', ''task'', ''story'', ''epic''}
        \<and> (\<forall>i < length pt. \<not> field_start ''type'' (drop i c))
      \<longrightarrow> det_issue_type (extract_jira_details cfg c t b n) = title_case vt
        \<and> title_case vt \<in> {''Bug'', ''Task'', ''Story'', ''Epic''})
   \<and> (c = pl @ kl @ sl @ vl @ rl
        \<and> (map lower_char kl = ''label'' \<or> map lower_char kl = ''labels'')
        \<and> sl \<noteq> [] \<and> list_all is_sep sl \<and> line_value vl rl
        \<and> (\<forall>i < length pl. \<not> field_start ''label'' (drop i c)
                             \<and> \<not> field_start ''labels'' (drop i c))
      \<longrightarrow> det_labels (extract_jira_details cfg c t b n)
            = ''github-pr'' # map strip (split_comma vl))
   \<and> det_summary (extract_jira_details cfg vector1 ''T'' (Some ''B'') (Some 5)) = ''Fix login''
   \<and> det_issue_type (extract_jira_details cfg vector1 ''T'' (Some ''B'') (Some 5)) = ''Bug''
   \<and> det_labels (extract_jira_details cfg vector1 ''T'' (Some ''B'') (Some 5))
       = [''github-pr'', ''frontend'', ''urgent'']
   \<and> det_summary (extract_jira_details cfg ''create jira for this'' ''My PR Title'' None None)
       = ''[GitHub PR] My PR Title''
   \<and> det_issue_type (extract_jira_details cfg ''create jira for this'' ''My PR Title'' None None)
       = ''Task''
   \<and> det_labels (extract_jira_details cfg ''create jira for this'' ''My PR Title'' None None)
       = [''github-pr'']"
proof -
  have a: "\<not> has_field_start ''summary'' c \<and> \<not> has_field_start ''type'' c
      \<and> \<not> has_field_start ''label'' c \<and> \<not> has_field_start ''labels'' c
      \<longrightarrow> det_summary (extract_jira_details cfg c t b n) = ''[GitHub PR] '' @ t
        \<and> det_issue_type (extract_jira_details cfg c t b n) = ''Task''
        \<and> det_labels (extract_jira_details cfg c t b n) = [''github-pr'']"
    by (simp add: extract_jira_details_def Let_def no_fields_no_match)
  have s: "c = ps @ ks @ ss @ vs @ rs \<and> map lower_char ks = ''summary''
        \<and> ss \<noteq> [] \<and> list_all is_sep ss \<and> line_value vs rs
        \<and> (\<forall>i < length ps. \<not> field_start ''summary'' (drop i c))
      \<longrightarrow> det_summary (extract_jira_details cfg c t b n) = strip vs"
  proof
    assume h: "c = ps @ ks @ ss @ vs @ rs \<and> map lower_char ks = ''summary''
        \<and> ss \<noteq> [] \<and> list_all is_sep ss \<and> line_value vs rs
        \<and> (\<forall>i < length ps. \<not> field_start ''summary'' (drop i c))"
    from h have c: "c = ps @ ks @ ss @ vs @ rs" by (elim conjE)
    from h have k: "map lower_char ks = ''summary''" by (elim conjE)
    from h have s1: "ss \<noteq> []" by (elim conjE)
    from h have s2: "list_all is_sep ss" by (elim conjE)
    from h have lv: "line_value vs rs" by (elim conjE)
    from h have nb: "\<forall>i < length ps. \<not> field_start ''summary'' (drop i c)" by (elim conjE)
    have "summary_match (ps @ ks @ ss @ vs @ rs) = Some vs"
      using k s1 s2 lv nb [unfolded c] by (rule first_summary_found)
    then have "summary_match c = Some vs" by (simp only: c)
    then show "det_summary (extract_jira_details cfg c t b n) = strip vs"
      by (simp add: extract_jira_details_def Let_def)
  qed
  have ty: "c = pt @ kt @ st @ vt @ rt \<and> map lower_char kt = ''type''
        \<and> st \<noteq> [] \<and> list_all is_sep st
        \<and> map lower_char vt \<in> {''bug'', ''task'', ''story'', ''epic''}
        \<and> (\<forall>i < length pt. \<not> field_start ''type'' (drop i c))
      \<longrightarrow> det_issue_type (extract_jira_details cfg c t b n) = title_case vt
        \<and> title_case vt \<in> {''Bug'', ''Task'', ''Story'', ''Epic''}"
  proof
    assume h: "c = pt @ kt @ st @ vt @ rt \<and> map lower_char kt = ''type''
        \<and> st \<noteq> [] \<and> list_all is_sep st
        \<and> map lower_char vt \<in> {''bug'', ''task'', ''story'', ''epic''}
        \<and> (\<forall>i < length pt. \<not> field_start ''type'' (drop i c))"
    then have m: "map lower_char vt \<in> {''bug'', ''task'', ''story'', ''epic''}" by (elim conjE)
    from h have c: "c = pt @ kt @ st @ vt @ rt" by (elim conjE)
    from h have k: "map lower_char kt = ''type''" by (elim conjE)
    from h have s1: "st \<noteq> []" by (elim conjE)
    from h have s2: "list_all is_sep st" by (elim conjE)
    from h have nb: "\<forall>i < length pt. \<not> field_start ''type'' (drop i c)" by (elim conjE)
    have "type_match (pt @ kt @ st @ vt @ rt) = Some vt"
      using k s1 s2 m nb [unfolded c] by (rule first_type_found)
    then have "type_match c = Some vt" by (simp only: c)
    then have "det_issue_type (extract_jira_details cfg c t b n) = title_case vt"
      by (simp add: extract_jira_details_def Let_def)
    moreover have "title_case vt \<in> {''Bug'', ''Task'', ''Story'', ''Epic''}"
      using type_value [OF m, of rt] by (elim conjE)
    ultimately show "det_issue_type (extract_jira_details cfg c t b n) = title_case vt
        \<and> title_case vt \<in> {''Bug'', ''Task'', ''Story'', ''Epic''}"
      by (rule conjI)
  qed
  have l: "c = pl @ kl @ sl @ vl @ rl
        \<and> (map lower_char kl = ''label'' \<or> map lower_char kl = ''labels'')
        \<and> sl \<noteq> [] \<and> list_all is_sep sl \<and> line_value vl rl
        \<and> (\<forall>i < length pl. \<not> field_start ''label'' (drop i c)
                             \<and> \<not> field_start ''labels'' (drop i c))
      \<longrightarrow> det_labels (extract_jira_details cfg c t b n)
            = ''github-pr'' # map strip (split_comma vl)"
  proof
    assume h: "c = pl @ kl @ sl @ vl @ rl
        \<and> (map lower_char kl = ''label'' \<or> map lower_char kl = ''labels'')
        \<and> sl \<noteq> [] \<and> list_all is_sep sl \<and> line_value vl rl
        \<and> (\<forall>i < length pl. \<not> field_start ''label'' (drop i c)
                             \<and> \<not> field_start ''labels'' (drop i c))"
    from h have c: "c = pl @ kl @ sl @ vl @ rl" by (elim conjE)
    from h have k: "map lower_char kl = ''label'' \<or> map lower_char kl = ''labels''"
      by (elim conjE)
    from h have s1: "sl \<noteq> []" by (elim conjE)
    from h have s2: "list_all is_sep sl" by (elim conjE)
    from h have lv: "line_value vl rl" by (elim conjE)
    from h have nb: "\<forall>i < length pl. \<not> field_start ''label'' (drop i c)
                             \<and> \<not> field_start ''labels'' (drop i c)" by (elim conjE)
    have "labels_match (pl @ kl @ sl @ vl @ rl) = Some vl"
      using k s1 s2 lv nb [unfolded c] by (rule first_labels_found)
    then have "labels_match c = Some vl" by (simp only: c)
    then show "det_labels (extract_jira_details cfg c t b n)
            = ''github-pr'' # map strip (split_comma vl)"
      by (simp add: extract_jira_details_def Let_def)
  qed
  have v1: "det_summary (extract_jira_details cfg vector1 ''T'' (Some ''B'') (Some 5)) = ''Fix login''"
    by (simp add: extract_jira_details_def Let_def vector1_summary strip_def is_space_def)
  have v2: "det_issue_type (extract_jira_details cfg vector1 ''T'' (Some ''B'') (Some 5)) = ''Bug''"
    by (simp add: extract_jira_details_def Let_def vector1_type title_case_def is_alpha_def
        lower_char_def upper_char_def)
  have v3: "det_labels (extract_jira_details cfg vector1 ''T'' (Some ''B'') (Some 5))
       = [''github-pr'', ''frontend'', ''urgent'']"
    by (simp add: extract_jira_details_def Let_def vector1_labels strip_def is_space_def)
  have v4: "det_summary (extract_jira_details cfg ''create jira for this'' ''My PR Title'' None None)
       = ''[GitHub PR] My PR Title''"
    by (simp add: extract_jira_details_def Let_def vector2_no_fields)
  have v5: "det_issue_type (extract_jira_details cfg ''create jira for this'' ''My PR Title'' None None)
       = ''Task''"
    by (simp add: extract_jira_details_def Let_def vector2_no_fields)
  have v6: "det_labels (extract_jira_details cfg ''create jira for this'' ''My PR Title'' None None)
       = [''github-pr'']"
    by (simp add: extract_jira_details_def Let_def vector2_no_fields)
  show ?thesis
    by (intro conjI) (rule a s ty l v1 v2 v3 v4 v5 v6)+
qed

lemma vector1_split:
  "vector1 = [] @ ''Summary'' @ '': '' @ ''Fix login''
               @ (newline @ ''Type: Bug'' @ newline @ ''Labels: frontend, urgent'')"
  "vector1 = (''Summary: Fix login'' @ newline) @ ''Type'' @ '': '' @ ''Bug''
               @ (newline @ ''Labels: frontend, urgent'')"
  "vector1 = (''Summary: Fix login'' @ newline @ ''Type: Bug'' @ newline) @ ''Labels'' @ '': ''
               @ ''frontend, urgent'' @ []"
  by (simp_all add: vector1_def)

lemma vector1_values:
  "line_value ''Fix login'' (newline @ ''Type: Bug'' @ newline @ ''Labels: frontend, urgent'')"
  "line_value ''frontend, urgent'' []"
  "list_all is_sep '': ''"
  "map lower_char ''Summary'' = ''summary''"
  "map lower_char ''Type'' = ''type''"
  "map lower_char ''Labels'' = ''labels''"
  "map lower_char ''Bug'' = ''bug''"
  by (simp_all add: line_value_def newline_def is_sep_def is_space_def lower_char_def)

lemma vector1_type_first:
  "\<forall>i < length (''Summary: Fix login'' @ newline). \<not> field_start ''type'' (drop i vector1)"
  by (simp add: vector1_def newline_def less_Suc_eq field_start_def starts_ci_def lower_char_def)

lemma vector1_labels_first:
  "\<forall>i < length (''Summary: Fix login'' @ newline @ ''Type: Bug'' @ newline).
      \<not> field_start ''label'' (drop i vector1) \<and> \<not> field_start ''labels'' (drop i vector1)"
  by (simp add: vector1_def newline_def less_Suc_eq field_start_def starts_ci_def lower_char_def)

lemma no_fields_example:
  "\<not> has_field_start ''summary'' ''looks good to me''"
  "\<not> has_field_start ''type'' ''looks good to me''"
  "\<not> has_field_start ''label'' ''looks good to me''"
  "\<not> has_field_start ''labels'' ''looks good to me''"
  by (simp_all add: field_start_def starts_ci_def lower_char_def)

theorem extract_jira_details_first_fields_witness:
  "det_summary (extract_jira_details demo_cfg vector1 ''T'' (Some ''B'') (Some 5))
     = strip ''Fix login''
   \<and> det_issue_type (extract_jira_details demo_cfg vector1 ''T'' (Some ''B'') (Some 5))
     = title_case ''Bug''
   \<and> det_labels (extract_jira_details demo_cfg vector1 ''T'' (Some ''B'') (Some 5))
     = ''github-pr'' # map strip (split_comma ''frontend, urgent'')
   \<and> det_summary (extract_jira_details demo_cfg ''looks good to me'' ''T'' None None)
     = ''[GitHub PR] '' @ ''T''
   \<and> det_issue_type (extract_jira_details demo_cfg ''looks good to me'' ''T'' None None)
     = ''Task''
   \<and> det_labels (extract_jira_details demo_cfg ''looks good to me'' ''T'' None None)
     = [''github-pr'']"
proof -
  note t1 = extract_jira_details_first_fields [where c = vector1 and cfg = demo_cfg
      and t = "''T''" and b = "Some ''B''" and n = "Some 5"
      and ps = "[]" and ks = "''Summary''" and ss = "'': ''" and vs = "''Fix login''"
      and rs = "newline @ ''Type: Bug'' @ newline @ ''Labels: frontend, urgent''"
      and pt = "''Summary: Fix login'' @ newline" and kt = "''Type''" and st = "'': ''"
      and vt = "''Bug''" and rt = "newline @ ''Labels: frontend, urgent''"
      and pl = "''Summary: Fix login'' @ newline @ ''Type: Bug'' @ newline"
      and kl = "''Labels''" and sl = "'': ''" and vl = "''frontend, urgent''" and rl = "[]"]
  note t2 = extract_jira_details_first_fields [where c = "''looks good to me''"
      and cfg = demo_cfg and t = "''T''" and b = None and n = None]
  have e: "\<forall>i < length ([]::string). \<not> field_start ''summary'' (drop i vector1)" by simp
  have ne: "'': '' \<noteq> []" by simp
  have a: "det_summary (extract_jira_details demo_cfg vector1 ''T'' (Some ''B'') (Some 5))
     = strip ''Fix login''"
    using t1 vector1_split(1) vector1_values(1,3,4) e ne by blast
  have b: "det_issue_type (extract_jira_details demo_cfg vector1 ''T'' (Some ''B'') (Some 5))
     = title_case ''Bug''"
    using t1 vector1_split(2) vector1_values(3,5,7) vector1_type_first ne by blast
  have c: "det_labels (extract_jira_details demo_cfg vector1 ''T'' (Some ''B'') (Some 5))
     = ''github-pr'' # map strip (split_comma ''frontend, urgent'')"
    using t1 vector1_split(3) vector1_values(2,3,6) vector1_labels_first ne by blast
  have d: "det_summary (extract_jira_details demo_cfg ''looks good to me'' ''T'' None None)
     = ''[GitHub PR] '' @ ''T''
   \<and> det_issue_type (extract_jira_details demo_cfg ''looks good to me'' ''T'' None None)
     = ''Task''
   \<and> det_labels (extract_jira_details demo_cfg ''looks good to me'' ''T'' None None)
     = [''github-pr'']"
    using t2 no_fields_example by blast
  show ?thesis using a b c d by (intro conjI) (elim conjE, assumption)+
qed

text \<open>
  Claim C9, as the specification states it, at three comments whose only field keyword
  stands in the middle of the only line: each is taken as the structured field.
\<close>

theorem midline_field_counterexample:
  "det_summary (extract_jira_details demo_cfg ''ok summary: Fix X'' ''T'' None None) = ''Fix X''
   \<and> det_issue_type (extract_jira_details demo_cfg ''my type: bug'' ''T'' None None) = ''Bug''
   \<and> det_labels (extract_jira_details demo_cfg ''my labels: a'' ''T'' None None)
       = [''github-pr'', ''a'']"
  by (simp add: extract_jira_details_def Let_def regex_defs strip_def title_case_def
      is_alpha_def upper_char_def)

text \<open>
  Claim C9, amended. The three patterns are searched without an anchor: the first
  position of the comment at which a field pattern matches gives the structured field,
  whatever text stands before it, at a line start or not.
\<close>

theorem fields_found_anywhere:
  "(summary_pattern rest = Some g
      \<and> (\<forall>i < length pre. summary_pattern (drop i (pre @ rest)) = None)
      \<longrightarrow> summary_match (pre @ rest) = Some g
        \<and> det_summary (extract_jira_details cfg (pre @ rest) t b n) = strip g)
   \<and> (type_pattern rest = Some g
      \<and> (\<forall>i < length pre. type_pattern (drop i (pre @ rest)) = None)
      \<longrightarrow> type_match (pre @ rest) = Some g
        \<and> det_issue_type (extract_jira_details cfg (pre @ rest) t b n) = title_case g)
   \<and> (labels_pattern rest = Some g
      \<and> (\<forall>i < length pre. labels_pattern (drop i (pre @ rest)) = None)
      \<longrightarrow> labels_match (pre @ rest) = Some g
        \<and> det_labels (extract_jira_details cfg (pre @ rest) t b n)
            = ''github-pr'' # map strip (split_comma g))"
proof -
  have a: "summary_match (pre @ rest) = Some g"
    if "summary_pattern rest = Some g"
      "\<forall>i < length pre. summary_pattern (drop i (pre @ rest)) = None"
    using that re_search_skip [of pre summary_pattern rest] re_search_here [of summary_pattern rest g]
    by (simp add: summary_match_def)
  have b: "type_match (pre @ rest) = Some g"
    if "type_pattern rest = Some g"
      "\<forall>i < length pre. type_pattern (drop i (pre @ rest)) = None"
    using that re_search_skip [of pre type_pattern rest] re_search_here [of type_pattern rest g]
    by (simp add: type_match_def)
  have c: "labels_match (pre @ rest) = Some g"
    if "labels_pattern rest = Some g"
      "\<forall>i < length pre. labels_pattern (drop i (pre @ rest)) = None"
    using that re_search_skip [of pre labels_pattern rest] re_search_here [of labels_pattern rest g]
    by (simp add: labels_match_def)
  show ?thesis
    using a b c by (auto simp: extract_jira_details_def Let_def)
qed

theorem fields_found_anywhere_witness:
  "summary_pattern ''summary: Fix X'' = Some ''Fix X''
   \<and> summary_match (''ok '' @ ''summary: Fix X'') = Some ''Fix X''
   \<and> det_summary (extract_jira_details demo_cfg (''ok '' @ ''summary: Fix X'') ''T'' None None)
       = strip ''Fix X''"
  using fields_found_anywhere [of "''summary: Fix X''" "''Fix X''" "''ok ''" demo_cfg "''T''" None None]
    midline_prefix_none midline_pattern_here
  by blast

section \<open>Webhook ingress\<close>

text \<open>
  Verification returns true exactly for the header \<open>sha256=\<close> followed by the hex
  digest, and false for an absent header.
\<close>

lemma verify_signature_True_iff:
  "verify_signature hexdigest cfg payload signature = Inr True \<longleftrightarrow>
     signature = Some (''sha256='' @ hexdigest (webhook_secret cfg) payload)
     \<and> is_ascii (hexdigest (webhook_secret cfg) payload)"
  by (auto simp: verify_signature_def compare_digest_def is_ascii_def split: option.splits)

lemma verify_signature_absent:
  "verify_signature hexdigest cfg payload None = Inr False"
  by (simp add: verify_signature_def)

text \<open>
  Claim C3, at a request without a signature header. Verification fails and the body is
  not parsed, but the \<open>HTTPException\<close> with status 401 is raised inside the \<open>try\<close> block,
  whose \<open>except Exception\<close> handler answers with status 500; so no request at all is
  answered with status 401.
\<close>

theorem missing_signature_gets_500:
  "github_webhook hexdigest json_loads cfg
     \<lparr>raw_body = b, x_hub_signature_256 = None, x_github_event = ev\<rparr>
   = (Inl (HTTPException 500 ''Internal server error''), [])
   \<and> fst (github_webhook hexdigest json_loads cfg req) \<noteq> Inl (HTTPException 401 detail)"
proof -
  have a: "github_webhook hexdigest json_loads cfg
     \<lparr>raw_body = b, x_hub_signature_256 = None, x_github_event = ev\<rparr>
   = (Inl (HTTPException 500 ''Internal server error''), [])"
    by (simp add: github_webhook_def webhook_try_def verify_signature_def)
  have b: "fst (github_webhook hexdigest json_loads cfg req) \<noteq> Inl (HTTPException 401 detail)"
    by (auto simp: github_webhook_def split: prod.splits sum.splits exn.splits)
  show ?thesis using a b by blast
qed

end
